theory Spec2Isabelle
  imports Complex_Main
begin

section \<open>Data model (database.py)\<close>

text \<open>
  The tables of \<^verbatim>\<open>database.py\<close> are lists of rows in insertion order, the order in
  which SQLite hands them to \<^verbatim>\<open>.first()\<close>. String columns stay strings (the status
  columns are declared \<^verbatim>\<open>String\<close>); integers are Python's unbounded \<open>int\<close>.
  A \<^verbatim>\<open>DateTime\<close> is a number of microseconds. The \<^verbatim>\<open>Float\<close> column
  \<^verbatim>\<open>distance\<close> only ever receives whole numbers (an \<open>int\<close> difference or
  0) and is an \<open>int\<close>; \<^verbatim>\<open>total_hours\<close> is a real number, computed without rounding. Columns that none of the operations
  below reads or writes (vehicle data, rating, coordinates, addresses, \<^verbatim>\<open>requested_at\<close>,
  the kilometer entry's \<^verbatim>\<open>date\<close>) are left out of the rows.
\<close>

type_synonym datetime = int

record driver =
  drv_id :: string
  drv_user_id :: string
  total_rides :: int
  is_online :: bool
  current_km_reading :: int
  last_status_change :: datetime

record ride =
  ride_id :: string
  passenger_id :: string
  ride_driver_id :: "string option"
  ride_status :: string
  assigned_at :: "datetime option"
  accepted_at :: "datetime option"
  picked_up_at :: "datetime option"
  completed_at :: "datetime option"
  cancelled_at :: "datetime option"
  distance :: int
  estimated_duration :: int
  actual_duration :: "int option"

record km_entry =
  km_id :: string
  km_driver_id :: string
  start_km :: int
  end_km :: "int option"
  km_ride_id :: "string option"
  km_status :: string

record attendance_row =
  att_id :: string
  att_driver_id :: string
  att_date :: datetime
  start_time :: datetime
  end_time :: "datetime option"
  total_hours :: "real option"
  att_status :: string

record leave_request =
  lr_id :: string
  lr_driver_id :: string
  lr_status :: string
  reviewed_at :: "datetime option"
  reviewed_by :: "string option"
  comments :: "string option"

record db =
  drivers :: "driver list"
  rides :: "ride list"
  km_entries :: "km_entry list"
  attendance :: "attendance_row list"
  leave_requests :: "leave_request list"

text \<open>The enums of \<^verbatim>\<open>schemas.py\<close>; both are \<^verbatim>\<open>(str, Enum)\<close>, stored by value.\<close>

datatype RideStatus =
  Requested | Assigned | Accepted | Picking_up | In_progress | Completed | Cancelled

fun RideStatus_value :: "RideStatus \<Rightarrow> string" where
  "RideStatus_value Requested = ''requested''"
| "RideStatus_value Assigned = ''assigned''"
| "RideStatus_value Accepted = ''accepted''"
| "RideStatus_value Picking_up = ''picking_up''"
| "RideStatus_value In_progress = ''in_progress''"
| "RideStatus_value Completed = ''completed''"
| "RideStatus_value Cancelled = ''cancelled''"

datatype LeaveStatus = Pending | Approved | Rejected

fun LeaveStatus_value :: "LeaveStatus \<Rightarrow> string" where
  "LeaveStatus_value Pending = ''pending''"
| "LeaveStatus_value Approved = ''approved''"
| "LeaveStatus_value Rejected = ''rejected''"

text \<open>
  \<^verbatim>\<open>raise HTTPException(status_code=..., detail=...)\<close>, and the
  \<^verbatim>\<open>IntegrityError\<close> that \<^verbatim>\<open>db.commit()\<close> raises when an inserted row repeats a
  primary key (every \<^verbatim>\<open>id\<close> column is declared \<^verbatim>\<open>primary_key=True\<close>), and the
  \<^verbatim>\<open>OverflowError\<close> it raises when a Python \<open>int\<close> bound to an \<^verbatim>\<open>Integer\<close> column
  does not fit SQLite's signed 64-bit integer.
\<close>

datatype error = HTTPException nat string | IntegrityError | OverflowError

text \<open>
  An endpoint returns either the exception it raised or the database as committed.
  Every \<^verbatim>\<open>raise\<close> of the endpoints below comes before the first assignment to a row,
  and a commit that fails writes nothing, so an exception leaves the stored tables as
  they were: \<open>db_after\<close> is the database a later request sees.
\<close>

definition db_after :: "db \<Rightarrow> error + db \<Rightarrow> db" where
  "db_after s res = (case res of Inl e \<Rightarrow> s | Inr s' \<Rightarrow> s')"

text \<open>
  A row fetched by a query is written back at commit by its primary key
  (\<^verbatim>\<open>UPDATE ... WHERE id = ?\<close>); a row added with \<^verbatim>\<open>db.add\<close> is inserted at commit,
  after the rows already there, unless its primary key is taken. The schemas put no bound
  on the integers of a request (\<^verbatim>\<open>start_km: int\<close>, \<^verbatim>\<open>end_km: int\<close>,
  \<^verbatim>\<open>actual_duration: Optional[int]\<close>), so each of them, and \<^verbatim>\<open>total_rides + 1\<close>, is
  checked against the 64 bits of the column when the commit binds it; the bind comes
  before the statement runs, hence before the primary key is looked at.
\<close>

definition fits_int64 :: "int \<Rightarrow> bool" where
  "fits_int64 n = (- (2 ^ 63) \<le> n \<and> n < 2 ^ 63)"

definition opt_fits_int64 :: "int option \<Rightarrow> bool" where
  "opt_fits_int64 v = (case v of None \<Rightarrow> True | Some n \<Rightarrow> fits_int64 n)"

definition pk_taken :: "('a \<Rightarrow> string) \<Rightarrow> string \<Rightarrow> 'a list \<Rightarrow> bool" where
  "pk_taken pk k xs = (k \<in> set (map pk xs))"

definition commit_row :: "('a \<Rightarrow> string) \<Rightarrow> 'a \<Rightarrow> 'a list \<Rightarrow> 'a list" where
  "commit_row pk x' xs = map (\<lambda>x. if pk x = pk x' then x' else x) xs"

section \<open>Ride endpoints (main.py)\<close>

text \<open>\<^verbatim>\<open>update_ride_status\<close>, PUT /rides/{ride_id}/status\<close>

definition update_ride_status :: "string \<Rightarrow> RideStatus \<Rightarrow> datetime \<Rightarrow> db \<Rightarrow> error + db" where
  "update_ride_status rid status now s =
     (case find (\<lambda>r. ride_id r = rid) (rides s) of
        None \<Rightarrow> Inl (HTTPException 404 ''Ride not found'')
      | Some ride \<Rightarrow>
          let ride1 = ride\<lparr>ride_status := RideStatus_value status\<rparr>;
              ride2 =
                (if status = Accepted then ride1\<lparr>accepted_at := Some now\<rparr>
                 else if status = Picking_up then ride1\<lparr>picked_up_at := Some now\<rparr>
                 else if status = In_progress then ride1\<lparr>picked_up_at := Some now\<rparr>
                 else if status = Completed then ride1\<lparr>completed_at := Some now\<rparr>
                 else if status = Cancelled then ride1\<lparr>cancelled_at := Some now\<rparr>
                 else ride1)
          in Inr (s\<lparr>rides := commit_row ride_id ride2 (rides s)\<rparr>))"

text \<open>
  \<^verbatim>\<open>assign_ride_to_driver\<close>, POST /rides/{ride_id}/assign. The body's own
  \<^verbatim>\<open>ride_id\<close> field is never read; the administrator check is the dependency
  \<^verbatim>\<open>get_current_admin\<close>, which runs before the endpoint.
\<close>

definition assign_ride_to_driver :: "string \<Rightarrow> string \<Rightarrow> datetime \<Rightarrow> db \<Rightarrow> error + db" where
  "assign_ride_to_driver rid assignment_driver_id now s =
     (case find (\<lambda>r. ride_id r = rid) (rides s) of
        None \<Rightarrow> Inl (HTTPException 404 ''Ride not found'')
      | Some ride \<Rightarrow>
          if ride_status ride \<noteq> ''requested''
          then Inl (HTTPException 400 ''Ride is not in requested status'')
          else
            (case find (\<lambda>d. drv_id d = assignment_driver_id) (drivers s) of
               None \<Rightarrow> Inl (HTTPException 404 ''Driver not found'')
             | Some driver \<Rightarrow>
                 if \<not> is_online driver
                 then Inl (HTTPException 400 ''Driver is not online'')
                 else Inr (s\<lparr>rides := commit_row ride_id
                        (ride\<lparr>ride_driver_id := Some assignment_driver_id,
                              ride_status := ''assigned'',
                              assigned_at := Some now\<rparr>) (rides s)\<rparr>)))"

text \<open>
  \<^verbatim>\<open>start_ride\<close>, POST /rides/{ride_id}/start. \<open>uid\<close> is \<^verbatim>\<open>current_user.id\<close> of the
  authenticated driver, \<open>new_id\<close> the \<^verbatim>\<open>uuid4\<close> drawn for the kilometer entry.
\<close>

definition start_ride :: "string \<Rightarrow> int \<Rightarrow> string \<Rightarrow> datetime \<Rightarrow> string \<Rightarrow> db \<Rightarrow> error + db" where
  "start_ride rid ride_start_km uid now new_id s =
     (case find (\<lambda>d. drv_user_id d = uid) (drivers s) of
        None \<Rightarrow> Inl (HTTPException 404 ''Driver profile not found'')
      | Some driver \<Rightarrow>
          (case find (\<lambda>r. ride_id r = rid) (rides s) of
             None \<Rightarrow> Inl (HTTPException 404 ''Ride not found'')
           | Some ride \<Rightarrow>
               if ride_driver_id ride \<noteq> Some (drv_id driver)
               then Inl (HTTPException 403 ''You are not assigned to this ride'')
               else if ride_status ride \<noteq> ''assigned''
               then Inl (HTTPException 400 ''Ride is not in assigned status'')
               else if \<not> fits_int64 ride_start_km then Inl OverflowError
               else if pk_taken km_id new_id (km_entries s) then Inl IntegrityError
               else Inr (s\<lparr>
                 rides := commit_row ride_id
                   (ride\<lparr>ride_status := ''in_progress'', picked_up_at := Some now\<rparr>) (rides s),
                 km_entries := km_entries s @
                   [\<lparr>km_id = new_id, km_driver_id = drv_id driver, start_km = ride_start_km,
                     end_km = None, km_ride_id = Some rid, km_status = ''started''\<rparr>],
                 drivers := commit_row drv_id
                   (driver\<lparr>current_km_reading := ride_start_km\<rparr>) (drivers s)\<rparr>)))"

text \<open>
  \<^verbatim>\<open>hasattr(ride, 'start_km')\<close>: the \<^verbatim>\<open>Ride\<close> class of \<^verbatim>\<open>database.py\<close> declares no
  \<^verbatim>\<open>start_km\<close>, so the attribute lookup finds nothing on any ride.
\<close>

definition ride_start_km_attr :: "ride \<Rightarrow> int option" where
  "ride_start_km_attr r = None"

text \<open>\<^verbatim>\<open>complete_ride\<close>, POST /rides/{ride_id}/complete\<close>

definition complete_ride :: "string \<Rightarrow> int \<Rightarrow> int option \<Rightarrow> string \<Rightarrow> datetime \<Rightarrow> db \<Rightarrow> error + db" where
  "complete_ride rid ride_complete_end_km ride_complete_actual_duration uid now s =
     (case find (\<lambda>d. drv_user_id d = uid) (drivers s) of
        None \<Rightarrow> Inl (HTTPException 404 ''Driver profile not found'')
      | Some driver \<Rightarrow>
          (case find (\<lambda>r. ride_id r = rid) (rides s) of
             None \<Rightarrow> Inl (HTTPException 404 ''Ride not found'')
           | Some ride \<Rightarrow>
               if ride_driver_id ride \<noteq> Some (drv_id driver)
               then Inl (HTTPException 403 ''You are not assigned to this ride'')
               else if ride_status ride \<noteq> ''in_progress''
               then Inl (HTTPException 400 ''Ride is not in progress'')
               else
                 let dist = (case ride_start_km_attr ride of
                               Some ride_start \<Rightarrow> ride_complete_end_km - ride_start
                             | None \<Rightarrow> 0);
                     ride' = ride\<lparr>ride_status := ''completed'', completed_at := Some now,
                                  actual_duration := ride_complete_actual_duration,
                                  distance := dist\<rparr>;
                     kms' = (case find (\<lambda>k. km_ride_id k = Some rid \<and> km_status k = ''started'')
                                       (km_entries s) of
                               None \<Rightarrow> km_entries s
                             | Some km \<Rightarrow> commit_row km_id
                                 (km\<lparr>end_km := Some ride_complete_end_km,
                                     km_status := ''completed''\<rparr>) (km_entries s));
                     driver' = driver\<lparr>current_km_reading := ride_complete_end_km,
                                      total_rides := total_rides driver + 1\<rparr>
                 in if \<not> fits_int64 ride_complete_end_km
                       \<or> \<not> opt_fits_int64 ride_complete_actual_duration
                       \<or> \<not> fits_int64 (total_rides driver + 1)
                    then Inl OverflowError
                    else Inr (s\<lparr>rides := commit_row ride_id ride' (rides s),
                             km_entries := kms',
                             drivers := commit_row drv_id driver' (drivers s)\<rparr>)))"

section \<open>Driver status endpoints (main.py)\<close>

text \<open>\<^verbatim>\<open>update_driver_status\<close>, PUT /drivers/{driver_id}/status\<close>

definition update_driver_status :: "string \<Rightarrow> bool \<Rightarrow> datetime \<Rightarrow> db \<Rightarrow> error + db" where
  "update_driver_status driver_id online now s =
     (case find (\<lambda>d. drv_id d = driver_id) (drivers s) of
        None \<Rightarrow> Inl (HTTPException 404 ''Driver not found'')
      | Some driver \<Rightarrow>
          Inr (s\<lparr>drivers := commit_row drv_id
                 (driver\<lparr>is_online := online, last_status_change := now\<rparr>) (drivers s)\<rparr>))"

text \<open>
  The body of the function \<^verbatim>\<open>update_my_status\<close>. It is declared for
  PUT /drivers/me/status, but the application never calls it: the route
  \<^verbatim>\<open>/drivers/{driver_id}/status\<close> is registered first and matches that path too, so such a
  request is served by \<^verbatim>\<open>update_driver_status\<close> with \<^verbatim>\<open>driver_id = "me"\<close>. The
  function is therefore no request of \<open>handle\<close> below.
\<close>

definition update_my_status :: "bool \<Rightarrow> string \<Rightarrow> datetime \<Rightarrow> db \<Rightarrow> error + db" where
  "update_my_status online uid now s =
     (case find (\<lambda>d. drv_user_id d = uid) (drivers s) of
        None \<Rightarrow> Inl (HTTPException 404 ''Driver profile not found'')
      | Some driver \<Rightarrow>
          Inr (s\<lparr>drivers := commit_row drv_id
                 (driver\<lparr>is_online := online, last_status_change := now\<rparr>) (drivers s)\<rparr>))"

text \<open>
  \<^verbatim>\<open>update_my_status_body\<close>, PUT /drivers/me/status-body. The argument \<open>request_is_online\<close>
  is \<^verbatim>\<open>request.get("is_online")\<close> (\<open>None\<close> when the key is absent or null); the clock is
  read twice, \<open>now\<close> for the attendance row and \<open>now2\<close> for \<^verbatim>\<open>last_status_change\<close>;
  \<open>new_id\<close> is the \<^verbatim>\<open>uuid4\<close> of the attendance row. \<^verbatim>\<open>now.date()\<close> is the midnight
  before \<open>now\<close>, and \<^verbatim>\<open>total_seconds() / 3600\<close> is taken exactly.
\<close>

definition date_of :: "datetime \<Rightarrow> datetime" where
  "date_of now = now - now mod 86400000000"

definition hours_between :: "datetime \<Rightarrow> datetime \<Rightarrow> real" where
  "hours_between start now = real_of_int (now - start) / 1000000 / 3600"

definition update_my_status_body ::
  "bool option \<Rightarrow> string \<Rightarrow> datetime \<Rightarrow> datetime \<Rightarrow> string \<Rightarrow> db \<Rightarrow> error + db" where
  "update_my_status_body request_is_online uid now now2 new_id s =
     (case request_is_online of
        None \<Rightarrow> Inl (HTTPException 400 ''is_online parameter is required'')
      | Some online \<Rightarrow>
          (case find (\<lambda>d. drv_user_id d = uid) (drivers s) of
             None \<Rightarrow> Inl (HTTPException 404 ''Driver profile not found'')
           | Some driver \<Rightarrow>
               let driver' = driver\<lparr>is_online := online, last_status_change := now2\<rparr> in
               if online \<and> \<not> is_online driver then
                 (if pk_taken att_id new_id (attendance s) then Inl IntegrityError
                  else Inr (s\<lparr>
                    attendance := attendance s @
                      [\<lparr>att_id = new_id, att_driver_id = drv_id driver, att_date = date_of now,
                        start_time = now, end_time = None, total_hours = None,
                        att_status = ''active''\<rparr>],
                    drivers := commit_row drv_id driver' (drivers s)\<rparr>))
               else if \<not> online \<and> is_online driver then
                 (case find (\<lambda>a. att_driver_id a = drv_id driver \<and> att_status a = ''active'')
                            (attendance s) of
                    None \<Rightarrow> Inr (s\<lparr>drivers := commit_row drv_id driver' (drivers s)\<rparr>)
                  | Some active_attendance \<Rightarrow>
                      Inr (s\<lparr>
                        attendance := commit_row att_id
                          (active_attendance\<lparr>end_time := Some now, att_status := ''completed'',
                             total_hours := Some (hours_between (start_time active_attendance) now)\<rparr>)
                          (attendance s),
                        drivers := commit_row drv_id driver' (drivers s)\<rparr>))
               else Inr (s\<lparr>drivers := commit_row drv_id driver' (drivers s)\<rparr>)))"

section \<open>Kilometer tracking endpoints (main.py)\<close>

text \<open>
  \<^verbatim>\<open>create_km_entry\<close>, POST /km-entries, with the fields of \<^verbatim>\<open>KilometerEntryCreate\<close>.
  SQLite does not check the foreign keys (the engine never switches them on), so a
  \<^verbatim>\<open>driver_id\<close> without a driver row is stored as it is.
\<close>

definition create_km_entry :: "string \<Rightarrow> int \<Rightarrow> string option \<Rightarrow> string \<Rightarrow> db \<Rightarrow> error + db" where
  "create_km_entry entry_driver_id entry_start_km entry_ride_id new_id s =
     (let new_entry = \<lparr>km_id = new_id, km_driver_id = entry_driver_id, start_km = entry_start_km,
                        end_km = None, km_ride_id = entry_ride_id, km_status = ''started''\<rparr>;
          drivers' = (case find (\<lambda>d. drv_id d = entry_driver_id) (drivers s) of
                        None \<Rightarrow> drivers s
                      | Some driver \<Rightarrow> commit_row drv_id
                          (driver\<lparr>current_km_reading := entry_start_km\<rparr>) (drivers s))
      in if \<not> fits_int64 entry_start_km then Inl OverflowError
         else if pk_taken km_id new_id (km_entries s) then Inl IntegrityError
         else Inr (s\<lparr>km_entries := km_entries s @ [new_entry], drivers := drivers'\<rparr>))"

text \<open>\<^verbatim>\<open>complete_km_entry\<close>, PUT /km-entries/{entry_id}/complete\<close>

definition complete_km_entry :: "string \<Rightarrow> int \<Rightarrow> db \<Rightarrow> error + db" where
  "complete_km_entry entry_id completion_end_km s =
     (case find (\<lambda>k. km_id k = entry_id) (km_entries s) of
        None \<Rightarrow> Inl (HTTPException 404 ''Kilometer entry not found'')
      | Some entry \<Rightarrow>
          let entry' = entry\<lparr>end_km := Some completion_end_km, km_status := ''completed''\<rparr>;
              drivers' = (case find (\<lambda>d. drv_id d = km_driver_id entry') (drivers s) of
                            None \<Rightarrow> drivers s
                          | Some driver \<Rightarrow> commit_row drv_id
                              (driver\<lparr>current_km_reading := completion_end_km\<rparr>) (drivers s))
          in if \<not> fits_int64 completion_end_km then Inl OverflowError
             else Inr (s\<lparr>km_entries := commit_row km_id entry' (km_entries s),
                      drivers := drivers'\<rparr>))"

section \<open>Leave request endpoints (main.py)\<close>

text \<open>
  \<^verbatim>\<open>review_leave_request\<close>, PUT /leave-requests/{request_id}/review, with the fields of
  \<^verbatim>\<open>LeaveRequestReview\<close>; \<open>uid\<close> is \<^verbatim>\<open>current_user.id\<close> of the administrator.
\<close>

definition review_leave_request ::
  "string \<Rightarrow> LeaveStatus \<Rightarrow> string option \<Rightarrow> string \<Rightarrow> datetime \<Rightarrow> db \<Rightarrow> error + db" where
  "review_leave_request request_id review_status review_comments uid now s =
     (case find (\<lambda>l. lr_id l = request_id) (leave_requests s) of
        None \<Rightarrow> Inl (HTTPException 404 ''Leave request not found'')
      | Some leave_req \<Rightarrow>
          Inr (s\<lparr>leave_requests := commit_row lr_id
                 (leave_req\<lparr>lr_status := LeaveStatus_value review_status,
                            reviewed_at := Some now,
                            reviewed_by := Some uid,
                            comments := review_comments\<rparr>) (leave_requests s)\<rparr>))"

section \<open>Requests and invariants\<close>

text \<open>One constructor per endpoint the application dispatches to, with the arguments of the
  call and the clock readings and identifiers it draws; \<open>handle\<close> calls the function, and \<open>run\<close> serves
  a sequence of requests one after the other, each on the database the one before left.\<close>

datatype request =
    Update_ride_status string RideStatus datetime
  | Assign_ride_to_driver string string datetime
  | Start_ride string int string datetime string
  | Complete_ride string int "int option" string datetime
  | Update_driver_status string bool datetime
  | Update_my_status_body "bool option" string datetime datetime string
  | Create_km_entry string int "string option" string
  | Complete_km_entry string int
  | Review_leave_request string LeaveStatus "string option" string datetime

fun handle :: "request \<Rightarrow> db \<Rightarrow> error + db" where
  "handle (Update_ride_status rid status now) s = update_ride_status rid status now s"
| "handle (Assign_ride_to_driver rid did now) s = assign_ride_to_driver rid did now s"
| "handle (Start_ride rid km uid now new_id) s = start_ride rid km uid now new_id s"
| "handle (Complete_ride rid km dur uid now) s = complete_ride rid km dur uid now s"
| "handle (Update_driver_status did online now) s = update_driver_status did online now s"
| "handle (Update_my_status_body req uid now now2 new_id) s =
     update_my_status_body req uid now now2 new_id s"
| "handle (Create_km_entry did km rid new_id) s = create_km_entry did km rid new_id s"
| "handle (Complete_km_entry eid km) s = complete_km_entry eid km s"
| "handle (Review_leave_request lid st cm uid now) s = review_leave_request lid st cm uid now s"

fun run :: "request list \<Rightarrow> db \<Rightarrow> db" where
  "run [] s = s"
| "run (rq # rqs) s = run rqs (db_after s (handle rq s))"

text \<open>The endpoints that insert a kilometer entry.\<close>

fun opens_km_entry :: "request \<Rightarrow> bool" where
  "opens_km_entry (Start_ride rid km uid now new_id) = True"
| "opens_km_entry (Create_km_entry did km rid new_id) = True"
| "opens_km_entry rq = False"

text \<open>The number of open attendance sessions and of open kilometer entries of a driver.\<close>

definition active_sessions :: "string \<Rightarrow> db \<Rightarrow> nat" where
  "active_sessions did s =
     length (filter (\<lambda>a. att_driver_id a = did \<and> att_status a = ''active'') (attendance s))"

definition started_entries :: "string \<Rightarrow> db \<Rightarrow> nat" where
  "started_entries did s =
     length (filter (\<lambda>k. km_driver_id k = did \<and> km_status k = ''started'') (km_entries s))"

text \<open>
  At most one started entry per driver. A driver without a row in the table has none, so
  the drivers that own an entry are all that need looking at.
\<close>

definition one_started_entry :: "db \<Rightarrow> bool" where
  "one_started_entry s = (\<forall>k \<in> set (km_entries s). started_entries (km_driver_id k) s \<le> 1)"

text \<open>
  The attendance ledger agrees with the drivers: session identifiers are distinct (the
  primary key), no driver has two active sessions, and a driver row is online exactly
  when the driver has an active session.
\<close>

definition attendance_agrees :: "db \<Rightarrow> bool" where
  "attendance_agrees s =
     (distinct (map att_id (attendance s))
      \<and> (\<forall>a \<in> set (attendance s). active_sessions (att_driver_id a) s \<le> 1)
      \<and> (\<forall>d \<in> set (drivers s). is_online d = (active_sessions (drv_id d) s = 1)))"

text \<open>
  The driver a request would open a kilometer entry for: the caller's driver row for
  \<^verbatim>\<open>start_ride\<close>, the driver named in the body for \<^verbatim>\<open>create_km_entry\<close>. A request
  opens a second entry when it succeeds although that driver has a started entry already.
\<close>

fun entry_driver :: "request \<Rightarrow> db \<Rightarrow> string option" where
  "entry_driver (Start_ride rid km uid now new_id) s =
     map_option drv_id (find (\<lambda>d. drv_user_id d = uid) (drivers s))"
| "entry_driver (Create_km_entry did km rid new_id) s = Some did"
| "entry_driver rq s = None"

definition opens_second_entry :: "request \<Rightarrow> db \<Rightarrow> bool" where
  "opens_second_entry rq s =
     (\<not> isl (handle rq s) \<and>
      (case entry_driver rq s of None \<Rightarrow> False | Some did \<Rightarrow> 0 < started_entries did s))"

text \<open>A request changes the online flag without any attendance bookkeeping when it is an
  \<^verbatim>\<open>update_driver_status\<close> with a value other than the one the driver has.\<close>

fun toggles_flag_only :: "request \<Rightarrow> db \<Rightarrow> bool" where
  "toggles_flag_only (Update_driver_status did online now) s =
     (case find (\<lambda>d. drv_id d = did) (drivers s) of
        None \<Rightarrow> False
      | Some d \<Rightarrow> is_online d \<noteq> online)"
| "toggles_flag_only rq s = False"

text \<open>\<open>all_steps P rqs s\<close>: \<open>P\<close> holds of every request of the sequence in the database it
  is served on.\<close>

fun all_steps :: "(request \<Rightarrow> db \<Rightarrow> bool) \<Rightarrow> request list \<Rightarrow> db \<Rightarrow> bool" where
  "all_steps P [] s = True"
| "all_steps P (rq # rqs) s = (P rq s \<and> all_steps P rqs (db_after s (handle rq s)))"

section \<open>Example databases\<close>

definition ex_driver :: driver where
  "ex_driver = \<lparr>drv_id = ''d1'', drv_user_id = ''u1'', total_rides = 7, is_online = True,
                 current_km_reading = 40, last_status_change = 0\<rparr>"

definition ex_ride :: ride where
  "ex_ride = \<lparr>ride_id = ''r1'', passenger_id = ''p1'', ride_driver_id = None,
               ride_status = ''requested'', assigned_at = None, accepted_at = None,
               picked_up_at = None, completed_at = None, cancelled_at = None,
               distance = 0, estimated_duration = 0, actual_duration = None\<rparr>"

definition ex_session :: attendance_row where
  "ex_session = \<lparr>att_id = ''a1'', att_driver_id = ''d1'', att_date = 0, start_time = 0,
                  end_time = None, total_hours = None, att_status = ''active''\<rparr>"

definition ex_leave :: leave_request where
  "ex_leave = \<lparr>lr_id = ''l1'', lr_driver_id = ''d1'', lr_status = ''pending'',
                reviewed_at = None, reviewed_by = None, comments = None\<rparr>"

text \<open>One online driver with an open session, one requested ride, one pending leave request.\<close>

definition ex_db :: db where
  "ex_db = \<lparr>drivers = [ex_driver], rides = [ex_ride], km_entries = [],
             attendance = [ex_session], leave_requests = [ex_leave]\<rparr>"

text \<open>The same with the ride assigned to the driver, then started at 100 km, then
  completed at 150 km.\<close>

definition ex_assigned :: db where
  "ex_assigned = ex_db\<lparr>rides :=
     [ex_ride\<lparr>ride_driver_id := Some ''d1'', ride_status := ''assigned'',
              assigned_at := Some 5\<rparr>]\<rparr>"

definition ex_started :: db where
  "ex_started = run [Start_ride ''r1'' 100 ''u1'' 6 ''k1''] ex_assigned"

definition ex_completed :: db where
  "ex_completed = run [Complete_ride ''r1'' 150 (Some 12) ''u1'' 9] ex_started"

text \<open>The ride in progress with no kilometer entry behind it: it was moved to
  \<^verbatim>\<open>in_progress\<close> through \<^verbatim>\<open>update_ride_status\<close>.\<close>

definition ex_no_entry :: db where
  "ex_no_entry = run [Update_ride_status ''r1'' In_progress 6] ex_assigned"

text \<open>The ride assigned while the driver already has an open kilometer entry, logged by
  hand at 80 km.\<close>

definition ex_open :: db where
  "ex_open = run [Create_km_entry ''d1'' 80 None ''k0''] ex_assigned"

text \<open>The leave request approved once.\<close>

definition ex_reviewed :: db where
  "ex_reviewed = run [Review_leave_request ''l1'' Approved None ''admin'' 10] ex_db"

text \<open>A driver who is offline and has never been online.\<close>

definition ex_offline :: db where
  "ex_offline = ex_db\<lparr>drivers := [ex_driver\<lparr>is_online := False\<rparr>], attendance := []\<rparr>"
section \<open>Lookups after a commit\<close>

lemma find_Some_mem: "find P xs = Some x \<Longrightarrow> x \<in> set xs \<and> P x"
  by (induction xs) (auto split: if_splits)

lemma find_Some_pk: "find (\<lambda>x. pk x = k) xs = Some x \<Longrightarrow> pk x = k"
  by (induction xs) (auto split: if_splits)

lemma find_commit_row_same:
  "find (\<lambda>x. pk x = k) xs = Some x \<Longrightarrow> pk x' = k \<Longrightarrow>
   find (\<lambda>x. pk x = k) (commit_row pk x' xs) = Some x'"
  by (induction xs) (auto simp: commit_row_def split: if_splits)

lemma find_commit_row_mem:
  "x \<in> set xs \<Longrightarrow> pk x' = pk x \<Longrightarrow>
   find (\<lambda>y. pk y = pk x) (commit_row pk x' xs) = Some x'"
  by (induction xs) (auto simp: commit_row_def)

lemma find_user_commit_row:
  "find (\<lambda>d. drv_user_id d = uid) ds = Some d \<Longrightarrow> drv_user_id d' = uid \<Longrightarrow>
   drv_id d' = drv_id d \<Longrightarrow>
   find (\<lambda>x. drv_user_id x = uid) (commit_row drv_id d' ds) = Some d'"
  by (induction ds) (auto simp: commit_row_def split: if_splits)

lemma commit_row_pk: "map pk (commit_row pk x' xs) = map pk xs"
  by (induction xs) (auto simp: commit_row_def)

lemma commit_row_cases:
  "y \<in> set (commit_row pk x' xs) \<Longrightarrow> y = x' \<or> (y \<in> set xs \<and> pk y \<noteq> pk x')"
  by (auto simp: commit_row_def split: if_splits)

lemma commit_row_absent: "pk x' \<notin> pk ` set xs \<Longrightarrow> commit_row pk x' xs = xs"
  by (induction xs) (auto simp: commit_row_def)

lemma filter_commit_row_le:
  "\<not> P x' \<Longrightarrow> length (filter P (commit_row pk x' xs)) \<le> length (filter P xs)"
  by (induction xs) (auto simp: commit_row_def)

lemma filter_commit_row_distinct:
  "distinct (map pk xs) \<Longrightarrow> x \<in> set xs \<Longrightarrow> pk x' = pk x \<Longrightarrow>
   length (filter P (commit_row pk x' xs)) + (if P x then 1 else 0) =
   length (filter P xs) + (if P x' then 1 else 0)"
proof (induction xs)
  case Nil
  then show ?case by simp
next
  case (Cons y ys)
  show ?case
  proof (cases "y = x")
    case True
    then have "pk x' \<notin> pk ` set ys" using Cons.prems by auto
    then have "commit_row pk x' ys = ys" by (rule commit_row_absent)
    then have "commit_row pk x' (y # ys) = x' # ys"
      using True Cons.prems(3) by (simp add: commit_row_def)
    then show ?thesis using True by simp
  next
    case False
    then have mem: "x \<in> set ys" using Cons.prems by simp
    then have ne: "pk y \<noteq> pk x'" using Cons.prems by force
    have d: "distinct (map pk ys)" using Cons.prems by simp
    have eq: "commit_row pk x' (y # ys) = y # commit_row pk x' ys"
      using ne by (simp add: commit_row_def)
    show ?thesis using Cons.IH [OF d mem Cons.prems(3)] eq by simp
  qed
qed

section \<open>Counting open entries and sessions\<close>

lemma one_started_entry_all: "one_started_entry s = (\<forall>did. started_entries did s \<le> 1)"
proof
  assume a: "one_started_entry s"
  show "\<forall>did. started_entries did s \<le> 1"
  proof
    fix did
    show "started_entries did s \<le> 1"
    proof (cases "filter (\<lambda>k. km_driver_id k = did \<and> km_status k = ''started'') (km_entries s)")
      case Nil
      then show ?thesis by (simp add: started_entries_def)
    next
      case (Cons k ks)
      then have "k \<in> set (filter (\<lambda>k. km_driver_id k = did \<and> km_status k = ''started'') (km_entries s))"
        by simp
      then have "k \<in> set (km_entries s)" and "km_driver_id k = did" by auto
      then show ?thesis using a by (auto simp: one_started_entry_def)
    qed
  qed
next
  assume "\<forall>did. started_entries did s \<le> 1"
  then show "one_started_entry s" by (simp add: one_started_entry_def)
qed

lemma active_sessions_all:
  "(\<forall>a \<in> set (attendance s). active_sessions (att_driver_id a) s \<le> 1)
   = (\<forall>did. active_sessions did s \<le> 1)"
proof
  assume a: "\<forall>a \<in> set (attendance s). active_sessions (att_driver_id a) s \<le> 1"
  show "\<forall>did. active_sessions did s \<le> 1"
  proof
    fix did
    show "active_sessions did s \<le> 1"
    proof (cases "filter (\<lambda>a. att_driver_id a = did \<and> att_status a = ''active'') (attendance s)")
      case Nil
      then show ?thesis by (simp add: active_sessions_def)
    next
      case (Cons k ks)
      then have "k \<in> set (filter (\<lambda>a. att_driver_id a = did \<and> att_status a = ''active'') (attendance s))"
        by simp
      then have "k \<in> set (attendance s)" and "att_driver_id k = did" by auto
      then show ?thesis using a by auto
    qed
  qed
next
  assume "\<forall>did. active_sessions did s \<le> 1"
  then show "\<forall>a \<in> set (attendance s). active_sessions (att_driver_id a) s \<le> 1" by simp
qed

lemma started_entries_mono:
  "\<not> opens_km_entry rq \<Longrightarrow>
   started_entries did (db_after s (handle rq s)) \<le> started_entries did s"
proof (cases rq)
  case (Complete_ride rid km dur uid now)
  then show ?thesis
    by (auto simp: complete_ride_def db_after_def started_entries_def Let_def
          filter_commit_row_le split: option.splits if_splits)
next
  case (Complete_km_entry eid km)
  then show ?thesis
    by (auto simp: complete_km_entry_def db_after_def started_entries_def Let_def
          filter_commit_row_le split: option.splits if_splits)
next
  case (Update_my_status_body req uid now now2 new_id)
  then show ?thesis
    by (auto simp: update_my_status_body_def db_after_def started_entries_def Let_def
          split: option.splits)
qed (auto simp: update_ride_status_def assign_ride_to_driver_def update_driver_status_def
       update_my_status_def review_leave_request_def db_after_def started_entries_def Let_def
       split: option.splits)


section \<open>The attendance ledger under each endpoint\<close>

lemma agrees_frame:
  assumes "attendance_agrees s" and "attendance s' = attendance s"
      and "\<forall>x \<in> set (drivers s'). \<exists>y \<in> set (drivers s). drv_id y = drv_id x \<and> is_online y = is_online x"
  shows "attendance_agrees s'"
  using assms unfolding attendance_agrees_def active_sessions_def by fastforce

lemma drivers_frame_commit:
  "d \<in> set ds \<Longrightarrow> drv_id d' = drv_id d \<Longrightarrow> is_online d' = is_online d \<Longrightarrow>
   \<forall>x \<in> set (commit_row drv_id d' ds). \<exists>y \<in> set ds. drv_id y = drv_id x \<and> is_online y = is_online x"
  by (auto dest!: commit_row_cases)

lemma agrees_go_online:
  assumes inv: "attendance_agrees s" and mem: "d \<in> set (drivers s)" and off: "\<not> is_online d"
      and fresh: "\<not> pk_taken att_id new_id (attendance s)"
      and on: "is_online d'" and pk: "drv_id d' = drv_id d"
  shows "attendance_agrees (s\<lparr>attendance := attendance s @
            [\<lparr>att_id = new_id, att_driver_id = drv_id d, att_date = dt, start_time = now,
              end_time = None, total_hours = None, att_status = ''active''\<rparr>],
          drivers := commit_row drv_id d' (drivers s)\<rparr>)" (is "attendance_agrees ?s'")
proof -
  have le: "\<forall>did. active_sessions did s \<le> 1"
    using inv unfolding attendance_agrees_def active_sessions_all by blast
  have zero: "active_sessions (drv_id d) s = 0"
  proof -
    have "active_sessions (drv_id d) s \<noteq> 1" using inv mem off by (auto simp: attendance_agrees_def)
    moreover have "active_sessions (drv_id d) s \<le> 1" using le by simp
    ultimately show ?thesis by arith
  qed
  have cnt: "\<And>did. active_sessions did ?s' = active_sessions did s + (if did = drv_id d then 1 else 0)"
    by (auto simp: active_sessions_def)
  have d1: "distinct (map att_id (attendance ?s'))"
    using inv fresh by (auto simp: attendance_agrees_def pk_taken_def)
  have d2: "\<forall>did. active_sessions did ?s' \<le> 1"
    using le zero cnt by auto
  have d3: "\<forall>x \<in> set (drivers ?s'). is_online x = (active_sessions (drv_id x) ?s' = 1)"
  proof
    fix x assume "x \<in> set (drivers ?s')"
    then have "x \<in> set (commit_row drv_id d' (drivers s))" by simp
    then consider "x = d'" | "x \<in> set (drivers s)" "drv_id x \<noteq> drv_id d'"
      by (auto dest: commit_row_cases)
    then show "is_online x = (active_sessions (drv_id x) ?s' = 1)"
    proof cases
      case 1
      then show ?thesis using on pk zero cnt by simp
    next
      case 2
      then have "is_online x = (active_sessions (drv_id x) s = 1)"
        using inv by (auto simp: attendance_agrees_def)
      then show ?thesis using 2 pk cnt by simp
    qed
  qed
  show ?thesis
    unfolding attendance_agrees_def active_sessions_all using d1 d2 d3 by blast
qed

lemma agrees_go_offline:
  assumes inv: "attendance_agrees s" and mem: "d \<in> set (drivers s)"
      and fa: "find (\<lambda>a. att_driver_id a = drv_id d \<and> att_status a = ''active'') (attendance s) = Some a"
      and off: "\<not> is_online d'" and pk: "drv_id d' = drv_id d"
  shows "attendance_agrees (s\<lparr>attendance := commit_row att_id
            (a\<lparr>end_time := Some now, att_status := ''completed'', total_hours := Some h\<rparr>)
            (attendance s),
          drivers := commit_row drv_id d' (drivers s)\<rparr>)" (is "attendance_agrees ?s'")
proof -
  let ?a' = "a\<lparr>end_time := Some now, att_status := ''completed'', total_hours := Some h\<rparr>"
  have le: "\<forall>did. active_sessions did s \<le> 1"
    using inv unfolding attendance_agrees_def active_sessions_all by blast
  have dist: "distinct (map att_id (attendance s))" using inv by (simp add: attendance_agrees_def)
  have am: "a \<in> set (attendance s)" and ad: "att_driver_id a = drv_id d"
    and aa: "att_status a = ''active''"
    using fa by (auto dest: find_Some_mem)
  have cnt: "active_sessions did ?s' + (if did = drv_id d then 1 else 0) = active_sessions did s"
    for did
    using filter_commit_row_distinct
      [OF dist am, of ?a' "\<lambda>r. att_driver_id r = did \<and> att_status r = ''active''"] ad aa
    by (cases "did = drv_id d") (auto simp: active_sessions_def)
  have one: "active_sessions (drv_id d) s = 1"
  proof -
    have "1 \<le> active_sessions (drv_id d) s" using cnt [of "drv_id d"] by simp
    then show ?thesis using le [rule_format, of "drv_id d"] by arith
  qed
  have d1: "distinct (map att_id (attendance ?s'))" using dist by (simp add: commit_row_pk)
  have d2: "\<forall>did. active_sessions did ?s' \<le> 1"
  proof
    fix did
    have "active_sessions did ?s' \<le> active_sessions did s" using cnt [of did] by simp
    then show "active_sessions did ?s' \<le> 1" using le [rule_format, of did] by arith
  qed
  have d3: "\<forall>x \<in> set (drivers ?s'). is_online x = (active_sessions (drv_id x) ?s' = 1)"
  proof
    fix x assume "x \<in> set (drivers ?s')"
    then have "x \<in> set (commit_row drv_id d' (drivers s))" by simp
    then consider "x = d'" | "x \<in> set (drivers s)" "drv_id x \<noteq> drv_id d'"
      by (auto dest: commit_row_cases)
    then show "is_online x = (active_sessions (drv_id x) ?s' = 1)"
    proof cases
      case 1
      then show ?thesis using off pk one cnt [of "drv_id d"] by simp
    next
      case 2
      then have "is_online x = (active_sessions (drv_id x) s = 1)"
        using inv by (auto simp: attendance_agrees_def)
      then show ?thesis using 2 pk cnt [of "drv_id x"] by simp
    qed
  qed
  show ?thesis
    unfolding attendance_agrees_def active_sessions_all using d1 d2 d3 by blast
qed

lemma agrees_online_has_session:
  assumes inv: "attendance_agrees s" and mem: "d \<in> set (drivers s)" and on: "is_online d"
  shows "find (\<lambda>a. att_driver_id a = drv_id d \<and> att_status a = ''active'') (attendance s) \<noteq> None"
proof
  assume "find (\<lambda>a. att_driver_id a = drv_id d \<and> att_status a = ''active'') (attendance s) = None"
  then have "filter (\<lambda>a. att_driver_id a = drv_id d \<and> att_status a = ''active'') (attendance s) = []"
    by (auto simp: find_None_iff filter_empty_conv)
  then have "active_sessions (drv_id d) s = 0" by (simp add: active_sessions_def)
  moreover have "active_sessions (drv_id d) s = 1"
    using inv mem on by (auto simp: attendance_agrees_def)
  ultimately show False by simp
qed

lemma agrees_update_my_status_body:
  assumes inv: "attendance_agrees s"
  shows "attendance_agrees (db_after s (update_my_status_body req uid now now2 new_id s))"
proof (cases req)
  case None
  then show ?thesis using inv by (simp add: update_my_status_body_def db_after_def)
next
  case (Some online)
  show ?thesis
  proof (cases "find (\<lambda>d. drv_user_id d = uid) (drivers s)")
    case None
    then show ?thesis using inv Some by (simp add: update_my_status_body_def db_after_def)
  next
    case (Some d)
    note drv = this
    have mem: "d \<in> set (drivers s)" using drv by (auto dest: find_Some_mem)
    let ?d' = "d\<lparr>is_online := online, last_status_change := now2\<rparr>"
    consider (on) "online" "\<not> is_online d" | (off) "\<not> online" "is_online d"
      | (same) "online = is_online d" by blast
    then show ?thesis
    proof cases
      case on
      show ?thesis
      proof (cases "pk_taken att_id new_id (attendance s)")
        case True
        then show ?thesis using inv drv on \<open>req = Some online\<close>
          by (simp add: update_my_status_body_def db_after_def Let_def)
      next
        case False
        have "attendance_agrees (s\<lparr>attendance := attendance s @
            [\<lparr>att_id = new_id, att_driver_id = drv_id d, att_date = date_of now, start_time = now,
              end_time = None, total_hours = None, att_status = ''active''\<rparr>],
          drivers := commit_row drv_id ?d' (drivers s)\<rparr>)"
          using on by (intro agrees_go_online [OF inv mem _ False]) auto
        then show ?thesis using drv on False \<open>req = Some online\<close>
          by (simp add: update_my_status_body_def db_after_def Let_def)
      qed
    next
      case off
      obtain a where fa: "find (\<lambda>a. att_driver_id a = drv_id d \<and> att_status a = ''active'') (attendance s) = Some a"
        using agrees_online_has_session [OF inv mem off(2)] by auto
      have "attendance_agrees (s\<lparr>attendance := commit_row att_id
            (a\<lparr>end_time := Some now, att_status := ''completed'',
               total_hours := Some (hours_between (start_time a) now)\<rparr>) (attendance s),
          drivers := commit_row drv_id ?d' (drivers s)\<rparr>)"
        using off by (intro agrees_go_offline [OF inv mem fa]) auto
      then show ?thesis using drv off fa \<open>req = Some online\<close>
        by (simp add: update_my_status_body_def db_after_def Let_def)
    next
      case same
      have "attendance_agrees (s\<lparr>drivers := commit_row drv_id ?d' (drivers s)\<rparr>)"
      proof (rule agrees_frame [OF inv])
        show "\<forall>x \<in> set (drivers (s\<lparr>drivers := commit_row drv_id ?d' (drivers s)\<rparr>)).
                \<exists>y \<in> set (drivers s). drv_id y = drv_id x \<and> is_online y = is_online x"
          using mem same by (simp, intro drivers_frame_commit) auto
      qed simp
      then show ?thesis using drv same \<open>req = Some online\<close>
        by (auto simp: update_my_status_body_def db_after_def Let_def)
    qed
  qed
qed


lemma start_ride_frame:
  assumes "start_ride rid km uid now new_id s = Inr s'"
  shows "attendance s' = attendance s \<and>
   (\<forall>x \<in> set (drivers s'). \<exists>y \<in> set (drivers s). drv_id y = drv_id x \<and> is_online y = is_online x)"
proof -
  from assms obtain d where f: "find (\<lambda>d. drv_user_id d = uid) (drivers s) = Some d"
    and a: "attendance s' = attendance s"
    and ds: "drivers s' = commit_row drv_id (d\<lparr>current_km_reading := km\<rparr>) (drivers s)"
    by (auto simp: start_ride_def split: option.splits if_splits)
  have "d \<in> set (drivers s)" using f by (auto dest: find_Some_mem)
  then have "\<forall>x \<in> set (drivers s'). \<exists>y \<in> set (drivers s). drv_id y = drv_id x \<and> is_online y = is_online x"
    unfolding ds by (intro drivers_frame_commit) auto
  with a show ?thesis by simp
qed

lemma complete_ride_frame:
  assumes "complete_ride rid km dur uid now s = Inr s'"
  shows "attendance s' = attendance s \<and>
   (\<forall>x \<in> set (drivers s'). \<exists>y \<in> set (drivers s). drv_id y = drv_id x \<and> is_online y = is_online x)"
proof -
  from assms obtain d where f: "find (\<lambda>d. drv_user_id d = uid) (drivers s) = Some d"
    and a: "attendance s' = attendance s"
    and ds: "drivers s' = commit_row drv_id
               (d\<lparr>current_km_reading := km, total_rides := total_rides d + 1\<rparr>) (drivers s)"
    by (auto simp: complete_ride_def Let_def split: option.splits if_splits)
  have "d \<in> set (drivers s)" using f by (auto dest: find_Some_mem)
  then have "\<forall>x \<in> set (drivers s'). \<exists>y \<in> set (drivers s). drv_id y = drv_id x \<and> is_online y = is_online x"
    unfolding ds by (intro drivers_frame_commit) auto
  with a show ?thesis by simp
qed

lemma km_reading_frame:
  assumes a: "attendance s' = attendance s"
      and ds: "drivers s' = (case find P (drivers s) of None \<Rightarrow> drivers s
                 | Some d \<Rightarrow> commit_row drv_id (d\<lparr>current_km_reading := km\<rparr>) (drivers s))"
  shows "attendance s' = attendance s \<and>
   (\<forall>x \<in> set (drivers s'). \<exists>y \<in> set (drivers s). drv_id y = drv_id x \<and> is_online y = is_online x)"
proof (cases "find P (drivers s)")
  case None
  then show ?thesis using a ds by auto
next
  case (Some d)
  then have "d \<in> set (drivers s)" by (auto dest: find_Some_mem)
  then have "\<forall>x \<in> set (commit_row drv_id (d\<lparr>current_km_reading := km\<rparr>) (drivers s)).
               \<exists>y \<in> set (drivers s). drv_id y = drv_id x \<and> is_online y = is_online x"
    by (intro drivers_frame_commit) auto
  then show ?thesis using a ds Some by simp
qed

lemma create_km_entry_frame:
  assumes "create_km_entry did km orid new_id s = Inr s'"
  shows "attendance s' = attendance s \<and>
   (\<forall>x \<in> set (drivers s'). \<exists>y \<in> set (drivers s). drv_id y = drv_id x \<and> is_online y = is_online x)"
proof (rule km_reading_frame)
  show "attendance s' = attendance s"
    using assms by (auto simp: create_km_entry_def Let_def split: if_splits)
  show "drivers s' = (case find (\<lambda>d. drv_id d = did) (drivers s) of None \<Rightarrow> drivers s
          | Some d \<Rightarrow> commit_row drv_id (d\<lparr>current_km_reading := km\<rparr>) (drivers s))"
    using assms by (auto simp: create_km_entry_def Let_def split: if_splits)
qed

lemma complete_km_entry_frame:
  assumes "complete_km_entry eid km s = Inr s'"
  shows "attendance s' = attendance s \<and>
   (\<forall>x \<in> set (drivers s'). \<exists>y \<in> set (drivers s). drv_id y = drv_id x \<and> is_online y = is_online x)"
proof -
  from assms obtain entry where e: "find (\<lambda>k. km_id k = eid) (km_entries s) = Some entry"
    and a: "attendance s' = attendance s"
    and ds: "drivers s' = (case find (\<lambda>d. drv_id d = km_driver_id entry) (drivers s) of
               None \<Rightarrow> drivers s
             | Some d \<Rightarrow> commit_row drv_id (d\<lparr>current_km_reading := km\<rparr>) (drivers s))"
    by (auto simp: complete_km_entry_def Let_def split: option.splits if_splits)
  show ?thesis using a ds by (rule km_reading_frame)
qed

lemma update_ride_status_frame:
  "update_ride_status rid st now s = Inr s' \<Longrightarrow>
   attendance s' = attendance s \<and> drivers s' = drivers s"
  by (auto simp: update_ride_status_def Let_def split: option.splits)

lemma assign_ride_to_driver_frame:
  "assign_ride_to_driver rid did now s = Inr s' \<Longrightarrow>
   attendance s' = attendance s \<and> drivers s' = drivers s"
  by (auto simp: assign_ride_to_driver_def split: option.splits if_splits)

lemma review_leave_request_frame:
  "review_leave_request lid lst cm uid now s = Inr s' \<Longrightarrow>
   attendance s' = attendance s \<and> drivers s' = drivers s"
  by (auto simp: review_leave_request_def split: option.splits)

lemma update_driver_status_frame:
  assumes "update_driver_status did online now s = Inr s'"
      and "\<not> toggles_flag_only (Update_driver_status did online now) s"
  shows "attendance s' = attendance s \<and>
   (\<forall>x \<in> set (drivers s'). \<exists>y \<in> set (drivers s). drv_id y = drv_id x \<and> is_online y = is_online x)"
proof -
  from assms obtain d where f: "find (\<lambda>d. drv_id d = did) (drivers s) = Some d"
    and a: "attendance s' = attendance s"
    and ds: "drivers s' = commit_row drv_id
               (d\<lparr>is_online := online, last_status_change := now\<rparr>) (drivers s)"
    and same: "is_online d = online"
    by (auto simp: update_driver_status_def split: option.splits)
  have "d \<in> set (drivers s)" using f by (auto dest: find_Some_mem)
  then have "\<forall>x \<in> set (drivers s'). \<exists>y \<in> set (drivers s). drv_id y = drv_id x \<and> is_online y = is_online x"
    unfolding ds using same by (intro drivers_frame_commit) auto
  with a show ?thesis by simp
qed

lemma attendance_agrees_preserved:
  assumes nf: "\<not> toggles_flag_only rq s" and inv: "attendance_agrees s"
  shows "attendance_agrees (db_after s (handle rq s))"
proof (cases "handle rq s")
  case (Inl e)
  then show ?thesis using inv by (simp add: db_after_def)
next
  case (Inr s')
  show ?thesis
  proof (cases "\<exists>req uid now now2 new_id. rq = Update_my_status_body req uid now now2 new_id")
    case True
    then show ?thesis using agrees_update_my_status_body [OF inv] by auto
  next
    case False
    have "attendance s' = attendance s \<and>
      (\<forall>x \<in> set (drivers s'). \<exists>y \<in> set (drivers s). drv_id y = drv_id x \<and> is_online y = is_online x)"
    proof (cases rq)
      case (Update_ride_status rid st now)
      then show ?thesis using Inr update_ride_status_frame [of rid st now s s'] by auto
    next
      case (Assign_ride_to_driver rid did now)
      then show ?thesis using Inr assign_ride_to_driver_frame [of rid did now s s'] by auto
    next
      case (Start_ride rid km uid now new_id)
      then show ?thesis using Inr start_ride_frame [of rid km uid now new_id s s'] by simp
    next
      case (Complete_ride rid km dur uid now)
      then show ?thesis using Inr complete_ride_frame [of rid km dur uid now s s'] by simp
    next
      case (Update_driver_status did online now)
      then show ?thesis using Inr nf update_driver_status_frame [of did online now s s'] by simp
    next
      case (Update_my_status_body req uid now now2 new_id)
      then show ?thesis using False by simp
    next
      case (Create_km_entry did km orid new_id)
      then show ?thesis using Inr create_km_entry_frame [of did km orid new_id s s'] by simp
    next
      case (Complete_km_entry eid km)
      then show ?thesis using Inr complete_km_entry_frame [of eid km s s'] by simp
    next
      case (Review_leave_request lid lst cm uid now)
      then show ?thesis using Inr review_leave_request_frame [of lid lst cm uid now s s'] by auto
    qed
    then have "attendance_agrees s'" using inv agrees_frame by blast
    then show ?thesis using Inr by (simp add: db_after_def)
  qed
qed

section \<open>Sequences of requests\<close>

lemma started_entries_opening:
  assumes ok: "\<not> opens_second_entry rq s" and op: "opens_km_entry rq"
      and inv: "\<forall>did. started_entries did s \<le> 1"
  shows "started_entries did (db_after s (handle rq s)) \<le> 1"
proof (cases "handle rq s")
  case (Inl e)
  then show ?thesis using inv by (simp add: db_after_def)
next
  case (Inr s')
  then obtain d where ed: "entry_driver rq s = Some d"
    and ks: "\<exists>k. km_entries s' = km_entries s @ [k] \<and> km_driver_id k = d"
    using op
    by (cases rq)
       (auto simp: start_ride_def create_km_entry_def Let_def split: option.splits if_splits)
  have zero: "started_entries d s = 0" using ok Inr ed by (simp add: opens_second_entry_def)
  have "started_entries did s' \<le> started_entries did s + (if did = d then 1 else 0)"
    using ks by (auto simp: started_entries_def)
  then have "started_entries did s' \<le> 1"
    using zero inv [rule_format, of did] by (cases "did = d") auto
  then show ?thesis using Inr by (simp add: db_after_def)
qed

lemma one_started_entry_step:
  assumes ok: "\<not> opens_second_entry rq s" and inv: "one_started_entry s"
  shows "one_started_entry (db_after s (handle rq s))"
proof -
  have all: "\<forall>did. started_entries did s \<le> 1" using inv by (simp add: one_started_entry_all)
  have "started_entries did (db_after s (handle rq s)) \<le> 1" for did
  proof (cases "opens_km_entry rq")
    case True
    then show ?thesis using ok all by (intro started_entries_opening)
  next
    case False
    then have "started_entries did (db_after s (handle rq s)) \<le> started_entries did s"
      by (rule started_entries_mono)
    then show ?thesis using all [rule_format, of did] by arith
  qed
  then show ?thesis by (simp add: one_started_entry_all)
qed

lemma run_one_started_entry:
  "all_steps (\<lambda>rq s. \<not> opens_second_entry rq s) rqs s \<Longrightarrow> one_started_entry s \<Longrightarrow>
   one_started_entry (run rqs s)"
proof (induction rqs arbitrary: s)
  case Nil
  then show ?case by simp
next
  case (Cons rq rqs)
  have "one_started_entry (db_after s (handle rq s))"
    using Cons.prems by (intro one_started_entry_step) simp_all
  then show ?case using Cons.IH Cons.prems(1) by simp
qed

lemma run_attendance_agrees:
  "all_steps (\<lambda>rq s. \<not> toggles_flag_only rq s) rqs s \<Longrightarrow> attendance_agrees s \<Longrightarrow>
   attendance_agrees (run rqs s)"
proof (induction rqs arbitrary: s)
  case Nil
  then show ?case by simp
next
  case (Cons rq rqs)
  have "attendance_agrees (db_after s (handle rq s))"
    using Cons.prems by (intro attendance_agrees_preserved) simp_all
  then show ?case using Cons.IH Cons.prems(1) by simp
qed

section \<open>Facts about the example databases\<close>

lemma ex_assigned_eq:
  "ex_assigned = \<lparr>drivers = [ex_driver],
     rides = [ex_ride\<lparr>ride_driver_id := Some ''d1'', ride_status := ''assigned'',
                      assigned_at := Some 5\<rparr>],
     km_entries = [], attendance = [ex_session], leave_requests = [ex_leave]\<rparr>"
  by (simp add: ex_assigned_def ex_db_def)

lemma ex_started_eq:
  "ex_started = \<lparr>drivers = [ex_driver\<lparr>current_km_reading := 100\<rparr>],
     rides = [ex_ride\<lparr>ride_driver_id := Some ''d1'', ride_status := ''in_progress'',
                      assigned_at := Some 5, picked_up_at := Some 6\<rparr>],
     km_entries = [\<lparr>km_id = ''k1'', km_driver_id = ''d1'', start_km = 100, end_km = None,
                    km_ride_id = Some ''r1'', km_status = ''started''\<rparr>],
     attendance = [ex_session], leave_requests = [ex_leave]\<rparr>"
  by (simp add: ex_started_def ex_assigned_eq start_ride_def db_after_def commit_row_def
        pk_taken_def fits_int64_def ex_driver_def ex_ride_def)

lemma ex_completed_eq:
  "ex_completed = \<lparr>drivers = [ex_driver\<lparr>current_km_reading := 150, total_rides := 8\<rparr>],
     rides = [ex_ride\<lparr>ride_driver_id := Some ''d1'', ride_status := ''completed'',
                      assigned_at := Some 5, picked_up_at := Some 6, completed_at := Some 9,
                      actual_duration := Some 12\<rparr>],
     km_entries = [\<lparr>km_id = ''k1'', km_driver_id = ''d1'', start_km = 100, end_km = Some 150,
                    km_ride_id = Some ''r1'', km_status = ''completed''\<rparr>],
     attendance = [ex_session], leave_requests = [ex_leave]\<rparr>"
  by (simp add: ex_completed_def ex_started_eq complete_ride_def ride_start_km_attr_def
        db_after_def commit_row_def fits_int64_def opt_fits_int64_def ex_driver_def ex_ride_def)

lemma ex_no_entry_eq:
  "ex_no_entry = \<lparr>drivers = [ex_driver],
     rides = [ex_ride\<lparr>ride_driver_id := Some ''d1'', ride_status := ''in_progress'',
                      assigned_at := Some 5, picked_up_at := Some 6\<rparr>],
     km_entries = [], attendance = [ex_session], leave_requests = [ex_leave]\<rparr>"
  by (simp add: ex_no_entry_def ex_assigned_eq update_ride_status_def db_after_def
        commit_row_def ex_ride_def)

lemma ex_open_eq:
  "ex_open = \<lparr>drivers = [ex_driver\<lparr>current_km_reading := 80\<rparr>],
     rides = [ex_ride\<lparr>ride_driver_id := Some ''d1'', ride_status := ''assigned'',
                      assigned_at := Some 5\<rparr>],
     km_entries = [\<lparr>km_id = ''k0'', km_driver_id = ''d1'', start_km = 80, end_km = None,
                    km_ride_id = None, km_status = ''started''\<rparr>],
     attendance = [ex_session], leave_requests = [ex_leave]\<rparr>"
  by (simp add: ex_open_def ex_assigned_eq create_km_entry_def db_after_def commit_row_def
        pk_taken_def fits_int64_def ex_driver_def)

lemma ex_reviewed_eq:
  "ex_reviewed = \<lparr>drivers = [ex_driver], rides = [ex_ride], km_entries = [],
     attendance = [ex_session],
     leave_requests = [ex_leave\<lparr>lr_status := ''approved'', reviewed_at := Some 10,
                                reviewed_by := Some ''admin''\<rparr>]\<rparr>"
  by (simp add: ex_reviewed_def ex_db_def review_leave_request_def db_after_def commit_row_def
        ex_leave_def)

lemma ex_offline_eq:
  "ex_offline = \<lparr>drivers = [ex_driver\<lparr>is_online := False\<rparr>], rides = [ex_ride],
     km_entries = [], attendance = [], leave_requests = [ex_leave]\<rparr>"
  by (simp add: ex_offline_def ex_db_def)

section \<open>Ride lifecycle\<close>

text \<open>
  C1. The claim: every change of a ride's status goes through the transition table
  (requested, assigned, in progress, completed; cancelled only from the first three), and
  the administrative \<^verbatim>\<open>update_ride_status\<close> rejects every transition outside it.
  The endpoint checks nothing but the existence of the ride, unlike its siblings
  \<^verbatim>\<open>assign_ride_to_driver\<close>, \<^verbatim>\<open>start_ride\<close> and \<^verbatim>\<open>complete_ride\<close>: it accepts
  the move of a completed ride back to requested, and of a requested ride without a driver
  straight to completed.
\<close>

theorem update_ride_status_unchecked:
  "map ride_status (rides ex_completed) = [''completed'']
   \<and> \<not> isl (update_ride_status ''r1'' Requested 20 ex_completed)
   \<and> map ride_status (rides (db_after ex_completed
         (update_ride_status ''r1'' Requested 20 ex_completed))) = [''requested'']
   \<and> map ride_status (rides ex_db) = [''requested'']
   \<and> map ride_status (rides (db_after ex_db
         (update_ride_status ''r1'' Completed 3 ex_db))) = [''completed'']
   \<and> map ride_driver_id (rides (db_after ex_db
         (update_ride_status ''r1'' Completed 3 ex_db))) = [None]"
  by (simp add: ex_completed_eq ex_db_def update_ride_status_def db_after_def commit_row_def
        ex_ride_def)

text \<open>
  C2. The claim: a ride started at odometer 100 and completed at 150 ends with distance 50,
  the driver's reading at 150, and the kilometer entry at start 100, end 150, completed.
  The reading and the entry come out as claimed; the distance does not. \<^verbatim>\<open>complete_ride\<close>
  computes it from \<^verbatim>\<open>ride.start_km\<close> under \<^verbatim>\<open>hasattr(ride, 'start_km')\<close>, and a ride
  has no such attribute, so the distance stored is 0.
\<close>

theorem start_complete_distance_zero:
  "map ride_status (rides (run [Start_ride ''r1'' 100 ''u1'' 6 ''k1'',
                                Complete_ride ''r1'' 150 (Some 12) ''u1'' 9] ex_assigned))
     = [''completed'']
   \<and> map distance (rides (run [Start_ride ''r1'' 100 ''u1'' 6 ''k1'',
                                Complete_ride ''r1'' 150 (Some 12) ''u1'' 9] ex_assigned)) = [0]
   \<and> map current_km_reading (drivers (run [Start_ride ''r1'' 100 ''u1'' 6 ''k1'',
                                Complete_ride ''r1'' 150 (Some 12) ''u1'' 9] ex_assigned)) = [150]
   \<and> km_entries (run [Start_ride ''r1'' 100 ''u1'' 6 ''k1'',
                      Complete_ride ''r1'' 150 (Some 12) ''u1'' 9] ex_assigned)
     = [\<lparr>km_id = ''k1'', km_driver_id = ''d1'', start_km = 100, end_km = Some 150,
         km_ride_id = Some ''r1'', km_status = ''completed''\<rparr>]"
proof -
  have "run [Start_ride ''r1'' 100 ''u1'' 6 ''k1'',
             Complete_ride ''r1'' 150 (Some 12) ''u1'' 9] ex_assigned = ex_completed"
    by (simp add: ex_completed_def ex_started_def)
  then show ?thesis
    by (simp add: ex_completed_eq ex_driver_def ex_ride_def)
qed

text \<open>
  C3. The claim: completing an in-progress ride (or closing an odometer entry) with an end
  reading below the entry's start reading fails with an invalid-reading error and changes
  nothing. Neither \<^verbatim>\<open>complete_ride\<close> nor \<^verbatim>\<open>complete_km_entry\<close> compares the two
  readings: with the entry started at 100, an end reading of 90 is stored.
\<close>

theorem complete_below_start_counterexample:
  "\<not> isl (complete_ride ''r1'' 90 None ''u1'' 9 ex_started)
   \<and> km_entries (db_after ex_started (complete_ride ''r1'' 90 None ''u1'' 9 ex_started))
     = [\<lparr>km_id = ''k1'', km_driver_id = ''d1'', start_km = 100, end_km = Some 90,
         km_ride_id = Some ''r1'', km_status = ''completed''\<rparr>]
   \<and> \<not> isl (complete_km_entry ''k1'' 90 ex_started)
   \<and> km_entries (db_after ex_started (complete_km_entry ''k1'' 90 ex_started))
     = [\<lparr>km_id = ''k1'', km_driver_id = ''d1'', start_km = 100, end_km = Some 90,
         km_ride_id = Some ''r1'', km_status = ''completed''\<rparr>]"
  by (simp add: ex_started_eq complete_ride_def complete_km_entry_def ride_start_km_attr_def
        db_after_def commit_row_def fits_int64_def opt_fits_int64_def ex_driver_def ex_ride_def)

text \<open>
  C3, as the code has it: there is no odometer check. For every in-progress ride whose
  assigned driver is the caller, and every end reading that fits a signed 64-bit integer
  (with a duration and a ride count that fit as well), also one below the start reading,
  \<^verbatim>\<open>complete_ride\<close> succeeds, stores the end reading in the first started entry of the
  ride and marks it completed, and sets the driver's reading to it. For every kilometer
  entry that exists, tied to a ride or not, and every such end reading,
  \<^verbatim>\<open>complete_km_entry\<close> succeeds, stores the end reading in the entry and marks it
  completed, and sets the reading of the entry's driver, when that driver exists.
\<close>

theorem complete_accepts_any_reading:
  "(find (\<lambda>d. drv_user_id d = uid) (drivers s) = Some driver
      \<and> find (\<lambda>r. ride_id r = rid) (rides s) = Some ride
      \<and> ride_driver_id ride = Some (drv_id driver)
      \<and> ride_status ride = ''in_progress''
      \<and> find (\<lambda>k. km_ride_id k = Some rid \<and> km_status k = ''started'') (km_entries s) = Some km
      \<and> fits_int64 e \<and> opt_fits_int64 dur \<and> fits_int64 (total_rides driver + 1)
    \<longrightarrow> (\<exists>s'. complete_ride rid e dur uid now s = Inr s'
           \<and> find (\<lambda>k. km_id k = km_id km) (km_entries s') =
               Some (km\<lparr>end_km := Some e, km_status := ''completed''\<rparr>)
           \<and> find (\<lambda>d. drv_user_id d = uid) (drivers s') =
               Some (driver\<lparr>current_km_reading := e, total_rides := total_rides driver + 1\<rparr>)))
   \<and> (find (\<lambda>k. km_id k = eid) (km_entries s) = Some entry \<and> fits_int64 e
    \<longrightarrow> (\<exists>s'. complete_km_entry eid e s = Inr s'
           \<and> find (\<lambda>k. km_id k = eid) (km_entries s') =
               Some (entry\<lparr>end_km := Some e, km_status := ''completed''\<rparr>)
           \<and> (case find (\<lambda>d. drv_id d = km_driver_id entry) (drivers s) of
                 None \<Rightarrow> drivers s' = drivers s
               | Some d \<Rightarrow> find (\<lambda>d. drv_id d = km_driver_id entry) (drivers s') =
                            Some (d\<lparr>current_km_reading := e\<rparr>))))"
proof -
  have a: "\<exists>s'. complete_ride rid e dur uid now s = Inr s'
           \<and> find (\<lambda>k. km_id k = km_id km) (km_entries s') =
               Some (km\<lparr>end_km := Some e, km_status := ''completed''\<rparr>)
           \<and> find (\<lambda>d. drv_user_id d = uid) (drivers s') =
               Some (driver\<lparr>current_km_reading := e, total_rides := total_rides driver + 1\<rparr>)"
    if drv: "find (\<lambda>d. drv_user_id d = uid) (drivers s) = Some driver"
      and rd: "find (\<lambda>r. ride_id r = rid) (rides s) = Some ride"
      and own: "ride_driver_id ride = Some (drv_id driver)"
      and st: "ride_status ride = ''in_progress''"
      and km: "find (\<lambda>k. km_ride_id k = Some rid \<and> km_status k = ''started'') (km_entries s)
                 = Some km"
      and fit: "fits_int64 e" "opt_fits_int64 dur" "fits_int64 (total_rides driver + 1)"
  proof -
    have u: "drv_user_id driver = uid" using drv by (auto dest: find_Some_mem)
    have m: "km \<in> set (km_entries s)" using km by (auto dest: find_Some_mem)
    have f: "find (\<lambda>k. km_id k = km_id km)
               (commit_row km_id (km\<lparr>end_km := Some e, km_status := ''completed''\<rparr>) (km_entries s))
             = Some (km\<lparr>end_km := Some e, km_status := ''completed''\<rparr>)"
      using find_commit_row_mem [OF m, of km_id "km\<lparr>end_km := Some e, km_status := ''completed''\<rparr>"]
      by simp
    show ?thesis
      using drv rd own st km u f fit
      by (simp add: complete_ride_def Let_def find_user_commit_row)
  qed
  have b: "\<exists>s'. complete_km_entry eid e s = Inr s'
           \<and> find (\<lambda>k. km_id k = eid) (km_entries s') =
               Some (entry\<lparr>end_km := Some e, km_status := ''completed''\<rparr>)
           \<and> (case find (\<lambda>d. drv_id d = km_driver_id entry) (drivers s) of
                 None \<Rightarrow> drivers s' = drivers s
               | Some d \<Rightarrow> find (\<lambda>d. drv_id d = km_driver_id entry) (drivers s') =
                            Some (d\<lparr>current_km_reading := e\<rparr>))"
    if en: "find (\<lambda>k. km_id k = eid) (km_entries s) = Some entry" and fit: "fits_int64 e"
  proof -
    have pk: "km_id entry = eid" using en by (rule find_Some_pk)
    have d: "find (\<lambda>d. drv_id d = km_driver_id entry)
               (commit_row drv_id (d\<lparr>current_km_reading := e\<rparr>) (drivers s))
             = Some (d\<lparr>current_km_reading := e\<rparr>)"
      if f: "find (\<lambda>d. drv_id d = km_driver_id entry) (drivers s) = Some d" for d
      using find_commit_row_same [OF f, of "d\<lparr>current_km_reading := e\<rparr>"]
            find_Some_pk [OF f]
      by simp
    show ?thesis
      using en pk fit d
      by (auto simp: complete_km_entry_def Let_def find_commit_row_same split: option.splits)
  qed
  show ?thesis using a b by blast
qed

theorem complete_accepts_any_reading_witness:
  "find (\<lambda>d. drv_user_id d = ''u1'') (drivers ex_started)
     = Some (ex_driver\<lparr>current_km_reading := 100\<rparr>)
   \<and> find (\<lambda>k. km_ride_id k = Some ''r1'' \<and> km_status k = ''started'') (km_entries ex_started)
     = Some \<lparr>km_id = ''k1'', km_driver_id = ''d1'', start_km = 100, end_km = None,
             km_ride_id = Some ''r1'', km_status = ''started''\<rparr>
   \<and> fits_int64 90 \<and> opt_fits_int64 None
   \<and> fits_int64 (total_rides (ex_driver\<lparr>current_km_reading := 100\<rparr>) + 1)
   \<and> (\<exists>s'. complete_ride ''r1'' 90 None ''u1'' 9 ex_started = Inr s'
         \<and> find (\<lambda>k. km_id k = ''k1'') (km_entries s') =
             Some \<lparr>km_id = ''k1'', km_driver_id = ''d1'', start_km = 100, end_km = Some 90,
                   km_ride_id = Some ''r1'', km_status = ''completed''\<rparr>)
   \<and> map ride_status (rides ex_open) = [''assigned'']
   \<and> find (\<lambda>k. km_id k = ''k0'') (km_entries ex_open)
     = Some \<lparr>km_id = ''k0'', km_driver_id = ''d1'', start_km = 80, end_km = None,
             km_ride_id = None, km_status = ''started''\<rparr>
   \<and> fits_int64 70
   \<and> (\<exists>s'. complete_km_entry ''k0'' 70 ex_open = Inr s'
         \<and> find (\<lambda>k. km_id k = ''k0'') (km_entries s') =
             Some \<lparr>km_id = ''k0'', km_driver_id = ''d1'', start_km = 80, end_km = Some 70,
                   km_ride_id = None, km_status = ''completed''\<rparr>)"
proof -
  let ?k = "\<lparr>km_id = ''k1'', km_driver_id = ''d1'', start_km = 100, end_km = None,
             km_ride_id = Some ''r1'', km_status = ''started''\<rparr>"
  let ?ko = "\<lparr>km_id = ''k0'', km_driver_id = ''d1'', start_km = 80, end_km = None,
              km_ride_id = None, km_status = ''started''\<rparr>"
  let ?r = "ex_ride\<lparr>ride_driver_id := Some ''d1'', ride_status := ''in_progress'',
                    assigned_at := Some 5, picked_up_at := Some 6\<rparr>"
  have h1: "find (\<lambda>d. drv_user_id d = ''u1'') (drivers ex_started)
              = Some (ex_driver\<lparr>current_km_reading := 100\<rparr>)"
    by (simp add: ex_started_eq ex_driver_def)
  have h2: "find (\<lambda>r. ride_id r = ''r1'') (rides ex_started) = Some ?r"
    by (simp add: ex_started_eq ex_ride_def)
  have h3: "ride_driver_id ?r = Some (drv_id (ex_driver\<lparr>current_km_reading := 100\<rparr>))"
    by (simp add: ex_driver_def)
  have h4: "ride_status ?r = ''in_progress''" by simp
  have h5: "find (\<lambda>k. km_ride_id k = Some ''r1'' \<and> km_status k = ''started'')
              (km_entries ex_started) = Some ?k"
    by (simp add: ex_started_eq)
  have f1: "fits_int64 90" by (simp add: fits_int64_def)
  have f2: "opt_fits_int64 None" by (simp add: opt_fits_int64_def)
  have f3: "fits_int64 (total_rides (ex_driver\<lparr>current_km_reading := 100\<rparr>) + 1)"
    by (simp add: fits_int64_def ex_driver_def)
  have g0: "map ride_status (rides ex_open) = [''assigned'']"
    by (simp add: ex_open_eq ex_ride_def)
  have g1: "find (\<lambda>k. km_id k = ''k0'') (km_entries ex_open) = Some ?ko"
    by (simp add: ex_open_eq)
  have g2: "fits_int64 70" by (simp add: fits_int64_def)
  from complete_accepts_any_reading
         [where uid = "''u1''" and s = ex_started
            and driver = "ex_driver\<lparr>current_km_reading := 100\<rparr>" and rid = "''r1''"
            and ride = ?r and km = ?k and e = 90 and dur = None and now = 9]
       h1 h2 h3 h4 h5 f1 f2 f3
  have c1: "\<exists>s'. complete_ride ''r1'' 90 None ''u1'' 9 ex_started = Inr s'
         \<and> find (\<lambda>k. km_id k = ''k1'') (km_entries s') =
             Some \<lparr>km_id = ''k1'', km_driver_id = ''d1'', start_km = 100, end_km = Some 90,
                   km_ride_id = Some ''r1'', km_status = ''completed''\<rparr>"
    by auto
  from complete_accepts_any_reading [where s = ex_open and e = 70 and eid = "''k0''"
         and entry = ?ko, THEN conjunct2] g1 g2
  have c2: "\<exists>s'. complete_km_entry ''k0'' 70 ex_open = Inr s'
         \<and> find (\<lambda>k. km_id k = ''k0'') (km_entries s') =
             Some \<lparr>km_id = ''k0'', km_driver_id = ''d1'', start_km = 80, end_km = Some 70,
                   km_ride_id = None, km_status = ''completed''\<rparr>"
    by auto
  show ?thesis using h1 h5 f1 f2 f3 c1 g0 g1 g2 c2 by blast
qed

section \<open>Odometer ledger and attendance\<close>

text \<open>
  C4. The claim: for a driver who already has a started kilometer entry, starting a ride
  (and opening a standalone entry) fails with a conflict error and creates no entry.
  Neither \<^verbatim>\<open>start_ride\<close> nor \<^verbatim>\<open>create_km_entry\<close> looks for an open entry: with one
  entry open, each of them succeeds and leaves the driver with two.
\<close>

theorem second_open_entry_counterexample:
  "started_entries ''d1'' ex_open = 1
   \<and> \<not> isl (start_ride ''r1'' 100 ''u1'' 6 ''k1'' ex_open)
   \<and> started_entries ''d1'' (db_after ex_open (start_ride ''r1'' 100 ''u1'' 6 ''k1'' ex_open)) = 2
   \<and> \<not> isl (create_km_entry ''d1'' 90 None ''k2'' ex_open)
   \<and> started_entries ''d1'' (db_after ex_open (create_km_entry ''d1'' 90 None ''k2'' ex_open)) = 2"
  by (simp add: ex_open_eq start_ride_def create_km_entry_def started_entries_def db_after_def
        commit_row_def pk_taken_def fits_int64_def ex_driver_def ex_ride_def)

text \<open>
  C4, as the code has it: neither endpoint looks for an open entry. For every driver, also
  one with a started entry, \<^verbatim>\<open>start_ride\<close> on a ride assigned to the calling driver
  succeeds when the start reading fits a signed 64-bit integer and the identifier drawn
  for the entry is unused; it appends a started entry and so raises the driver's number of
  started entries by one. In every database, with or without rides, \<^verbatim>\<open>create_km_entry\<close>
  does the same for every driver identifier under the same two conditions.
\<close>

theorem start_ride_appends_entry:
  "(find (\<lambda>d. drv_user_id d = uid) (drivers s) = Some driver
      \<and> find (\<lambda>r. ride_id r = rid) (rides s) = Some ride
      \<and> ride_driver_id ride = Some (drv_id driver)
      \<and> ride_status ride = ''assigned''
      \<and> fits_int64 km \<and> \<not> pk_taken km_id new_id (km_entries s)
    \<longrightarrow> (\<exists>s'. start_ride rid km uid now new_id s = Inr s'
           \<and> km_entries s' = km_entries s @
                [\<lparr>km_id = new_id, km_driver_id = drv_id driver, start_km = km, end_km = None,
                  km_ride_id = Some rid, km_status = ''started''\<rparr>]
           \<and> started_entries (drv_id driver) s' = started_entries (drv_id driver) s + 1))
   \<and> (fits_int64 km \<and> \<not> pk_taken km_id new_id (km_entries s)
    \<longrightarrow> (\<exists>s'. create_km_entry did km orid new_id s = Inr s'
           \<and> km_entries s' = km_entries s @
                [\<lparr>km_id = new_id, km_driver_id = did, start_km = km, end_km = None,
                  km_ride_id = orid, km_status = ''started''\<rparr>]
           \<and> started_entries did s' = started_entries did s + 1))"
  by (simp add: start_ride_def create_km_entry_def Let_def started_entries_def)

theorem start_ride_appends_entry_witness:
  "find (\<lambda>d. drv_user_id d = ''u1'') (drivers ex_open) = Some (ex_driver\<lparr>current_km_reading := 80\<rparr>)
   \<and> fits_int64 100 \<and> \<not> pk_taken km_id ''k1'' (km_entries ex_open)
   \<and> started_entries ''d1'' ex_open = 1
   \<and> (\<exists>s'. start_ride ''r1'' 100 ''u1'' 6 ''k1'' ex_open = Inr s'
         \<and> started_entries ''d1'' s' = started_entries ''d1'' ex_open + 1)
   \<and> map ride_status (rides ex_started) = [''in_progress'']
   \<and> fits_int64 120 \<and> \<not> pk_taken km_id ''k2'' (km_entries ex_started)
   \<and> started_entries ''d1'' ex_started = 1
   \<and> (\<exists>s'. create_km_entry ''d1'' 120 None ''k2'' ex_started = Inr s'
         \<and> started_entries ''d1'' s' = started_entries ''d1'' ex_started + 1)"
proof -
  let ?r = "ex_ride\<lparr>ride_driver_id := Some ''d1'', ride_status := ''assigned'',
                    assigned_at := Some 5\<rparr>"
  have h1: "find (\<lambda>d. drv_user_id d = ''u1'') (drivers ex_open)
              = Some (ex_driver\<lparr>current_km_reading := 80\<rparr>)"
    by (simp add: ex_open_eq ex_driver_def)
  have h2: "find (\<lambda>r. ride_id r = ''r1'') (rides ex_open) = Some ?r"
    by (simp add: ex_open_eq ex_ride_def)
  have h3: "ride_driver_id ?r = Some (drv_id (ex_driver\<lparr>current_km_reading := 80\<rparr>))"
    by (simp add: ex_driver_def)
  have h4: "ride_status ?r = ''assigned''" by simp
  have h5: "\<not> pk_taken km_id ''k1'' (km_entries ex_open)"
    by (simp add: ex_open_eq pk_taken_def)
  have h6: "started_entries ''d1'' ex_open = 1"
    by (simp add: ex_open_eq started_entries_def)
  have h7: "fits_int64 100" by (simp add: fits_int64_def)
  have id: "drv_id (ex_driver\<lparr>current_km_reading := 80\<rparr>) = ''d1''" by (simp add: ex_driver_def)
  from start_ride_appends_entry
         [where uid = "''u1''" and s = ex_open
            and driver = "ex_driver\<lparr>current_km_reading := 80\<rparr>" and rid = "''r1''"
            and ride = ?r and km = 100 and new_id = "''k1''" and now = 6]
       h1 h2 h3 h4 h5 h7
  have c1: "\<exists>s'. start_ride ''r1'' 100 ''u1'' 6 ''k1'' ex_open = Inr s'
         \<and> started_entries ''d1'' s' = started_entries ''d1'' ex_open + 1"
    unfolding id by blast
  have g0: "map ride_status (rides ex_started) = [''in_progress'']"
    by (simp add: ex_started_eq ex_ride_def)
  have g1: "fits_int64 120" by (simp add: fits_int64_def)
  have g2: "\<not> pk_taken km_id ''k2'' (km_entries ex_started)"
    by (simp add: ex_started_eq pk_taken_def)
  have g3: "started_entries ''d1'' ex_started = 1"
    by (simp add: ex_started_eq started_entries_def)
  from start_ride_appends_entry [where s = ex_started and km = 120 and new_id = "''k2''"
         and did = "''d1''" and orid = None, THEN conjunct2] g1 g2
  have c2: "\<exists>s'. create_km_entry ''d1'' 120 None ''k2'' ex_started = Inr s'
         \<and> started_entries ''d1'' s' = started_entries ''d1'' ex_started + 1"
    by blast
  show ?thesis using h1 h7 h5 h6 c1 g0 g1 g2 g3 c2 by blast
qed

text \<open>
  C5. The claim: in every reachable state a driver has at most one active attendance session
  and at most one started kilometer entry, and every operation preserves this.
  \<^verbatim>\<open>create_km_entry\<close> (like \<^verbatim>\<open>start_ride\<close>) inserts a started entry without looking for
  an open one, so a second started entry of the same driver is reachable.
\<close>

theorem one_open_each_counterexample:
  "one_started_entry ex_started
   \<and> \<not> one_started_entry (run [Create_km_entry ''d1'' 120 None ''k2''] ex_started)
   \<and> started_entries ''d1'' (run [Create_km_entry ''d1'' 120 None ''k2''] ex_started) = 2"
  by (simp add: ex_started_eq one_started_entry_def started_entries_def create_km_entry_def
        db_after_def commit_row_def pk_taken_def fits_int64_def ex_driver_def)

text \<open>
  C5, as the code has it. Started entries: every request keeps "at most one started entry
  per driver", \<^verbatim>\<open>start_ride\<close> and \<^verbatim>\<open>create_km_entry\<close> included, unless it is one of
  these two succeeding for a driver who has a started entry already; so the bound holds
  after every sequence of requests none of which opens such a second entry. Active
  sessions: every request keeps the attendance ledger in agreement with the drivers, and
  with it at most one active session per driver, unless it is an \<^verbatim>\<open>update_driver_status\<close>
  that changes the flag; so both hold after every sequence of requests without such a
  change. The session bookkeeping is that of \<^verbatim>\<open>update_my_status_body\<close>.
\<close>

theorem one_open_each_preserved:
  "(all_steps (\<lambda>rq s. \<not> opens_second_entry rq s) rqs s \<and> one_started_entry s \<longrightarrow>
      started_entries did (run rqs s) \<le> 1 \<and> one_started_entry (run rqs s))
   \<and> (all_steps (\<lambda>rq s. \<not> toggles_flag_only rq s) rqs s \<and> attendance_agrees s \<longrightarrow>
      active_sessions did (run rqs s) \<le> 1 \<and> attendance_agrees (run rqs s))"
proof -
  have a: "started_entries did (run rqs s) \<le> 1 \<and> one_started_entry (run rqs s)"
    if "all_steps (\<lambda>rq s. \<not> opens_second_entry rq s) rqs s" and "one_started_entry s"
    using run_one_started_entry [OF that] by (simp add: one_started_entry_all)
  have b: "active_sessions did (run rqs s) \<le> 1 \<and> attendance_agrees (run rqs s)"
    if "all_steps (\<lambda>rq s. \<not> toggles_flag_only rq s) rqs s" and "attendance_agrees s"
  proof -
    have g: "attendance_agrees (run rqs s)" using run_attendance_agrees [OF that] .
    then have "\<forall>did. active_sessions did (run rqs s) \<le> 1"
      unfolding attendance_agrees_def active_sessions_all by blast
    then show ?thesis using g by simp
  qed
  show ?thesis using a b by blast
qed

theorem one_open_each_preserved_witness:
  "all_steps (\<lambda>rq s. \<not> opens_second_entry rq s)
      [Start_ride ''r1'' 100 ''u1'' 6 ''k1'',
       Update_my_status_body (Some False) ''u1'' 7 8 ''a2'',
       Complete_ride ''r1'' 150 None ''u1'' 9,
       Create_km_entry ''d1'' 150 None ''k2'',
       Update_driver_status ''d1'' False 10,
       Update_my_status_body (Some True) ''u1'' 11 12 ''a3''] ex_assigned
   \<and> all_steps (\<lambda>rq s. \<not> toggles_flag_only rq s)
      [Start_ride ''r1'' 100 ''u1'' 6 ''k1'',
       Update_my_status_body (Some False) ''u1'' 7 8 ''a2'',
       Complete_ride ''r1'' 150 None ''u1'' 9,
       Create_km_entry ''d1'' 150 None ''k2'',
       Update_driver_status ''d1'' False 10,
       Update_my_status_body (Some True) ''u1'' 11 12 ''a3''] ex_assigned
   \<and> one_started_entry ex_assigned \<and> attendance_agrees ex_assigned
   \<and> started_entries ''d1'' (run
      [Start_ride ''r1'' 100 ''u1'' 6 ''k1'',
       Update_my_status_body (Some False) ''u1'' 7 8 ''a2'',
       Complete_ride ''r1'' 150 None ''u1'' 9,
       Create_km_entry ''d1'' 150 None ''k2'',
       Update_driver_status ''d1'' False 10,
       Update_my_status_body (Some True) ''u1'' 11 12 ''a3''] ex_assigned) \<le> 1
   \<and> active_sessions ''d1'' (run
      [Start_ride ''r1'' 100 ''u1'' 6 ''k1'',
       Update_my_status_body (Some False) ''u1'' 7 8 ''a2'',
       Complete_ride ''r1'' 150 None ''u1'' 9,
       Create_km_entry ''d1'' 150 None ''k2'',
       Update_driver_status ''d1'' False 10,
       Update_my_status_body (Some True) ''u1'' 11 12 ''a3''] ex_assigned) \<le> 1"
proof -
  let ?rqs = "[Start_ride ''r1'' 100 ''u1'' 6 ''k1'',
               Update_my_status_body (Some False) ''u1'' 7 8 ''a2'',
               Complete_ride ''r1'' 150 None ''u1'' 9,
               Create_km_entry ''d1'' 150 None ''k2'',
               Update_driver_status ''d1'' False 10,
               Update_my_status_body (Some True) ''u1'' 11 12 ''a3'']"
  have h1: "all_steps (\<lambda>rq s. \<not> opens_second_entry rq s) ?rqs ex_assigned"
    by (simp add: ex_assigned_eq opens_second_entry_def started_entries_def start_ride_def
          complete_ride_def create_km_entry_def update_my_status_body_def
          update_driver_status_def ride_start_km_attr_def db_after_def commit_row_def
          pk_taken_def fits_int64_def opt_fits_int64_def hours_between_def
          ex_driver_def ex_ride_def ex_session_def)
  have h2: "all_steps (\<lambda>rq s. \<not> toggles_flag_only rq s) ?rqs ex_assigned"
    by (simp add: ex_assigned_eq start_ride_def
          complete_ride_def create_km_entry_def update_my_status_body_def
          update_driver_status_def ride_start_km_attr_def db_after_def commit_row_def
          pk_taken_def fits_int64_def opt_fits_int64_def hours_between_def
          ex_driver_def ex_ride_def ex_session_def)
  have h3: "one_started_entry ex_assigned"
    by (simp add: ex_assigned_eq one_started_entry_def)
  have h4: "attendance_agrees ex_assigned"
    by (simp add: ex_assigned_eq attendance_agrees_def active_sessions_def ex_session_def
          ex_driver_def)
  from one_open_each_preserved [of ?rqs ex_assigned "''d1''"] h1 h2 h3 h4
  have c: "started_entries ''d1'' (run ?rqs ex_assigned) \<le> 1
           \<and> active_sessions ''d1'' (run ?rqs ex_assigned) \<le> 1"
    by blast
  show ?thesis using h1 h2 h3 h4 c by blast
qed

text \<open>
  C6. The claim: a driver's online flag agrees with the existence of an active attendance
  session of that driver, and every operation that changes the flag keeps the agreement.
  \<^verbatim>\<open>update_my_status_body\<close> keeps the ledger (see C5); its sibling
  \<^verbatim>\<open>update_driver_status\<close> writes the flag and leaves the ledger alone, and so does the
  body of \<^verbatim>\<open>update_my_status\<close>, a function the application never dispatches to. On a
  driver who is offline with no session, each of them leaves the driver online with no
  active session; and a driver sent offline through \<^verbatim>\<open>update_driver_status\<close> keeps the
  open session, so going online again opens a second one.
\<close>

theorem flag_only_write_breaks_agreement:
  "map is_online (drivers ex_offline) = [False]
   \<and> active_sessions ''d1'' ex_offline = 0
   \<and> map is_online (drivers (db_after ex_offline (update_driver_status ''d1'' True 1 ex_offline)))
     = [True]
   \<and> active_sessions ''d1'' (db_after ex_offline (update_driver_status ''d1'' True 1 ex_offline)) = 0
   \<and> map is_online (drivers (db_after ex_offline (update_my_status True ''u1'' 1 ex_offline)))
     = [True]
   \<and> active_sessions ''d1'' (db_after ex_offline (update_my_status True ''u1'' 1 ex_offline)) = 0
   \<and> active_sessions ''d1''
        (db_after (db_after ex_db (update_my_status False ''u1'' 1 ex_db))
           (update_my_status_body (Some True) ''u1'' 2 3 ''a2''
              (db_after ex_db (update_my_status False ''u1'' 1 ex_db)))) = 2
   \<and> active_sessions ''d1'' (run [Update_driver_status ''d1'' False 1,
                                   Update_my_status_body (Some True) ''u1'' 2 3 ''a2''] ex_db) = 2"
  by (simp add: ex_offline_eq ex_db_def update_driver_status_def update_my_status_def
        update_my_status_body_def active_sessions_def db_after_def commit_row_def pk_taken_def
        ex_driver_def ex_session_def)

section \<open>Assignment, leave review, idempotence\<close>

text \<open>
  C7. For every ride and driver that exist: \<^verbatim>\<open>assign_ride_to_driver\<close> fails with status
  400, "Ride is not in requested status", when the ride is not requested, and with 400,
  "Driver is not online", when the ride is requested and the driver is offline; otherwise
  it succeeds, and the ride then carries the driver, the status assigned and the time of
  the assignment, the other tables being untouched. A failed call leaves the database as it
  was.
\<close>

theorem assign_ride_to_driver_spec:
  assumes rd: "find (\<lambda>r. ride_id r = rid) (rides s) = Some ride"
      and drv: "find (\<lambda>d. drv_id d = did) (drivers s) = Some driver"
  shows "(ride_status ride \<noteq> ''requested'' \<longrightarrow>
            assign_ride_to_driver rid did now s =
              Inl (HTTPException 400 ''Ride is not in requested status''))
       \<and> (ride_status ride = ''requested'' \<and> \<not> is_online driver \<longrightarrow>
            assign_ride_to_driver rid did now s = Inl (HTTPException 400 ''Driver is not online''))
       \<and> (ride_status ride = ''requested'' \<and> is_online driver \<longrightarrow>
            (\<exists>s'. assign_ride_to_driver rid did now s = Inr s'
               \<and> find (\<lambda>r. ride_id r = rid) (rides s') =
                   Some (ride\<lparr>ride_driver_id := Some did, ride_status := ''assigned'',
                              assigned_at := Some now\<rparr>)
               \<and> drivers s' = drivers s \<and> km_entries s' = km_entries s
               \<and> attendance s' = attendance s \<and> leave_requests s' = leave_requests s))
       \<and> (isl (assign_ride_to_driver rid did now s) \<longrightarrow>
            db_after s (assign_ride_to_driver rid did now s) = s)"
proof -
  have pk: "ride_id ride = rid" using rd by (rule find_Some_pk)
  show ?thesis
    using rd drv pk
    by (auto simp: assign_ride_to_driver_def db_after_def find_commit_row_same)
qed

theorem assign_ride_to_driver_spec_witness:
  "find (\<lambda>r. ride_id r = ''r1'') (rides ex_db) = Some ex_ride
   \<and> find (\<lambda>d. drv_id d = ''d1'') (drivers ex_db) = Some ex_driver
   \<and> ride_status ex_ride = ''requested'' \<and> is_online ex_driver
   \<and> (\<exists>s'. assign_ride_to_driver ''r1'' ''d1'' 5 ex_db = Inr s' \<and> rides s' = rides ex_assigned)
   \<and> find (\<lambda>d. drv_id d = ''d1'') (drivers ex_offline) = Some (ex_driver\<lparr>is_online := False\<rparr>)
   \<and> assign_ride_to_driver ''r1'' ''d1'' 5 ex_offline = Inl (HTTPException 400 ''Driver is not online'')
   \<and> ride_status (ex_ride\<lparr>ride_driver_id := Some ''d1'', ride_status := ''assigned'',
                          assigned_at := Some 5\<rparr>) \<noteq> ''requested''
   \<and> assign_ride_to_driver ''r1'' ''d1'' 6 ex_assigned =
       Inl (HTTPException 400 ''Ride is not in requested status'')
   \<and> db_after ex_assigned (assign_ride_to_driver ''r1'' ''d1'' 6 ex_assigned) = ex_assigned"
proof -
  let ?ra = "ex_ride\<lparr>ride_driver_id := Some ''d1'', ride_status := ''assigned'',
                     assigned_at := Some 5\<rparr>"
  have r1: "find (\<lambda>r. ride_id r = ''r1'') (rides ex_db) = Some ex_ride"
    by (simp add: ex_db_def ex_ride_def)
  have d1: "find (\<lambda>d. drv_id d = ''d1'') (drivers ex_db) = Some ex_driver"
    by (simp add: ex_db_def ex_driver_def)
  have q: "ride_status ex_ride = ''requested''" by (simp add: ex_ride_def)
  have o: "is_online ex_driver" by (simp add: ex_driver_def)
  have r2: "find (\<lambda>r. ride_id r = ''r1'') (rides ex_offline) = Some ex_ride"
    by (simp add: ex_offline_eq ex_ride_def)
  have d2: "find (\<lambda>d. drv_id d = ''d1'') (drivers ex_offline) = Some (ex_driver\<lparr>is_online := False\<rparr>)"
    by (simp add: ex_offline_eq ex_driver_def)
  have r3: "find (\<lambda>r. ride_id r = ''r1'') (rides ex_assigned) = Some ?ra"
    by (simp add: ex_assigned_eq ex_ride_def)
  have d3: "find (\<lambda>d. drv_id d = ''d1'') (drivers ex_assigned) = Some ex_driver"
    by (simp add: ex_assigned_eq ex_driver_def)
  have n: "ride_status ?ra \<noteq> ''requested''" by simp
  from assign_ride_to_driver_spec [OF r1 d1, of 5] q o
  obtain s' where a: "assign_ride_to_driver ''r1'' ''d1'' 5 ex_db = Inr s'"
    and f: "find (\<lambda>r. ride_id r = ''r1'') (rides s') = Some ?ra"
    by blast
  have "rides s' = rides ex_assigned"
    using a by (auto simp: assign_ride_to_driver_def ex_db_def ex_assigned_def commit_row_def
                  ex_ride_def ex_driver_def)
  then have c1: "\<exists>s'. assign_ride_to_driver ''r1'' ''d1'' 5 ex_db = Inr s' \<and> rides s' = rides ex_assigned"
    using a by blast
  from assign_ride_to_driver_spec [OF r2 d2, of 5] q
  have c2: "assign_ride_to_driver ''r1'' ''d1'' 5 ex_offline = Inl (HTTPException 400 ''Driver is not online'')"
    by simp
  note t3 = assign_ride_to_driver_spec [OF r3 d3, of 6]
  have c3: "assign_ride_to_driver ''r1'' ''d1'' 6 ex_assigned =
              Inl (HTTPException 400 ''Ride is not in requested status'')"
    using t3 n by blast
  have "isl (assign_ride_to_driver ''r1'' ''d1'' 6 ex_assigned)" using c3 by simp
  then have c4: "db_after ex_assigned (assign_ride_to_driver ''r1'' ''d1'' 6 ex_assigned)
                   = ex_assigned"
    using t3 by blast
  show ?thesis using r1 d1 q o c1 d2 c2 n c3 c4 by blast
qed

text \<open>
  C8. The claim: a leave request can be reviewed only while it is pending; a second review
  fails and changes nothing. \<^verbatim>\<open>review_leave_request\<close> never reads the status: the request
  approved at time 10 is reviewed again at time 20 and becomes rejected.
\<close>

theorem second_review_counterexample:
  "map lr_status (leave_requests ex_reviewed) = [''approved'']
   \<and> \<not> isl (review_leave_request ''l1'' Rejected None ''admin2'' 20 ex_reviewed)
   \<and> leave_requests (db_after ex_reviewed
        (review_leave_request ''l1'' Rejected None ''admin2'' 20 ex_reviewed))
     = [\<lparr>lr_id = ''l1'', lr_driver_id = ''d1'', lr_status = ''rejected'', reviewed_at = Some 20,
         reviewed_by = Some ''admin2'', comments = None\<rparr>]"
  by (simp add: ex_reviewed_eq review_leave_request_def db_after_def commit_row_def ex_leave_def)

text \<open>
  C8, as the code has it: \<^verbatim>\<open>review_leave_request\<close> succeeds on every leave request that
  exists, whatever its status, and writes the decision, the time, the reviewer and the
  comments; a second review succeeds as well and overwrites the first.
\<close>

theorem review_leave_request_any_status:
  assumes lr: "find (\<lambda>l. lr_id l = lid) (leave_requests s) = Some lr"
  shows "\<exists>s1 s2. review_leave_request lid st cm uid now s = Inr s1
           \<and> find (\<lambda>l. lr_id l = lid) (leave_requests s1) =
               Some (lr\<lparr>lr_status := LeaveStatus_value st, reviewed_at := Some now,
                        reviewed_by := Some uid, comments := cm\<rparr>)
           \<and> review_leave_request lid st2 cm2 uid2 now2 s1 = Inr s2
           \<and> find (\<lambda>l. lr_id l = lid) (leave_requests s2) =
               Some (lr\<lparr>lr_status := LeaveStatus_value st2, reviewed_at := Some now2,
                        reviewed_by := Some uid2, comments := cm2\<rparr>)"
proof -
  have pk: "lr_id lr = lid" using lr by (rule find_Some_pk)
  show ?thesis
    using lr pk
    by (simp add: review_leave_request_def find_commit_row_same)
qed

theorem review_leave_request_any_status_witness:
  "find (\<lambda>l. lr_id l = ''l1'') (leave_requests ex_db) = Some ex_leave
   \<and> (\<exists>s1 s2. review_leave_request ''l1'' Approved None ''admin'' 10 ex_db = Inr s1
         \<and> review_leave_request ''l1'' Rejected None ''admin2'' 20 s1 = Inr s2
         \<and> find (\<lambda>l. lr_id l = ''l1'') (leave_requests s2) =
             Some (ex_leave\<lparr>lr_status := ''rejected'', reviewed_at := Some 20,
                            reviewed_by := Some ''admin2'', comments := None\<rparr>))"
proof -
  have h: "find (\<lambda>l. lr_id l = ''l1'') (leave_requests ex_db) = Some ex_leave"
    by (simp add: ex_db_def ex_leave_def)
  from review_leave_request_any_status
         [OF h, of Approved None "''admin''" 10 Rejected None "''admin2''" 20]
  have c: "\<exists>s1 s2. review_leave_request ''l1'' Approved None ''admin'' 10 ex_db = Inr s1
         \<and> review_leave_request ''l1'' Rejected None ''admin2'' 20 s1 = Inr s2
         \<and> find (\<lambda>l. lr_id l = ''l1'') (leave_requests s2) =
             Some (ex_leave\<lparr>lr_status := ''rejected'', reviewed_at := Some 20,
                            reviewed_by := Some ''admin2'', comments := None\<rparr>)"
    by auto
  show ?thesis using h c by blast
qed

text \<open>
  C9. \<^verbatim>\<open>update_my_status_body\<close> is idempotent on the attendance ledger: called with the
  value the driver's flag already has, it succeeds and leaves the attendance table as it
  was; and two calls in a row with \<^verbatim>\<open>is_online = true\<close> on an offline driver (the first
  with an unused session identifier) both succeed and leave the table with exactly one
  session more, the active one opened by the first call. Whenever the driver's sessions
  agree with the flag to begin with, the driver has exactly one active session after the
  two calls, whether the first call found the driver offline or online.
\<close>

theorem update_my_status_body_idempotent:
  assumes drv: "find (\<lambda>d. drv_user_id d = uid) (drivers s) = Some driver"
  shows "(is_online driver = online \<longrightarrow>
            (\<exists>s'. update_my_status_body (Some online) uid now now2 new_id s = Inr s'
                 \<and> attendance s' = attendance s))
       \<and> (\<not> is_online driver \<and> \<not> pk_taken att_id new_id (attendance s) \<longrightarrow>
            (\<exists>s1 s2. update_my_status_body (Some True) uid now now2 new_id s = Inr s1
                 \<and> update_my_status_body (Some True) uid now' now2' new_id' s1 = Inr s2
                 \<and> attendance s2 = attendance s @
                      [\<lparr>att_id = new_id, att_driver_id = drv_id driver, att_date = date_of now,
                        start_time = now, end_time = None, total_hours = None,
                        att_status = ''active''\<rparr>]
                 \<and> active_sessions (drv_id driver) s2 = active_sessions (drv_id driver) s + 1))
       \<and> (active_sessions (drv_id driver) s = (if is_online driver then 1 else 0)
            \<and> \<not> pk_taken att_id new_id (attendance s) \<longrightarrow>
            (\<exists>s1 s2. update_my_status_body (Some True) uid now now2 new_id s = Inr s1
                 \<and> update_my_status_body (Some True) uid now' now2' new_id' s1 = Inr s2
                 \<and> active_sessions (drv_id driver) s2 = 1))"
proof -
  have u: "drv_user_id driver = uid" using drv by (auto dest: find_Some_mem)
  have c: "active_sessions (drv_id driver) s = (if is_online driver then 1 else 0)
            \<and> \<not> pk_taken att_id new_id (attendance s) \<longrightarrow>
            (\<exists>s1 s2. update_my_status_body (Some True) uid now now2 new_id s = Inr s1
                 \<and> update_my_status_body (Some True) uid now' now2' new_id' s1 = Inr s2
                 \<and> active_sessions (drv_id driver) s2 = 1)"
    using drv u
    by (cases "is_online driver")
       (simp_all add: update_my_status_body_def Let_def find_user_commit_row active_sessions_def)
  have a: "is_online driver = online \<longrightarrow>
            (\<exists>s'. update_my_status_body (Some online) uid now now2 new_id s = Inr s'
                 \<and> attendance s' = attendance s)"
    using drv by (simp add: update_my_status_body_def Let_def)
  have b: "\<not> is_online driver \<and> \<not> pk_taken att_id new_id (attendance s) \<longrightarrow>
            (\<exists>s1 s2. update_my_status_body (Some True) uid now now2 new_id s = Inr s1
                 \<and> update_my_status_body (Some True) uid now' now2' new_id' s1 = Inr s2
                 \<and> attendance s2 = attendance s @
                      [\<lparr>att_id = new_id, att_driver_id = drv_id driver, att_date = date_of now,
                        start_time = now, end_time = None, total_hours = None,
                        att_status = ''active''\<rparr>]
                 \<and> active_sessions (drv_id driver) s2 = active_sessions (drv_id driver) s + 1)"
    using drv u
    by (simp add: update_my_status_body_def Let_def find_user_commit_row active_sessions_def)
  show ?thesis using a b c by blast
qed

theorem update_my_status_body_idempotent_witness:
  "find (\<lambda>d. drv_user_id d = ''u1'') (drivers ex_offline) = Some (ex_driver\<lparr>is_online := False\<rparr>)
   \<and> \<not> is_online (ex_driver\<lparr>is_online := False\<rparr>)
   \<and> \<not> pk_taken att_id ''a1'' (attendance ex_offline)
   \<and> (\<exists>s'. update_my_status_body (Some False) ''u1'' 1 2 ''a1'' ex_offline = Inr s'
         \<and> attendance s' = attendance ex_offline)
   \<and> (\<exists>s1 s2. update_my_status_body (Some True) ''u1'' 1 2 ''a1'' ex_offline = Inr s1
         \<and> update_my_status_body (Some True) ''u1'' 3 4 ''a2'' s1 = Inr s2
         \<and> active_sessions ''d1'' s2 = active_sessions ''d1'' ex_offline + 1)
   \<and> find (\<lambda>d. drv_user_id d = ''u1'') (drivers ex_db) = Some ex_driver
   \<and> is_online ex_driver \<and> active_sessions ''d1'' ex_db = 1
   \<and> \<not> pk_taken att_id ''a2'' (attendance ex_db)
   \<and> (\<exists>s1 s2. update_my_status_body (Some True) ''u1'' 1 2 ''a2'' ex_db = Inr s1
         \<and> update_my_status_body (Some True) ''u1'' 3 4 ''a3'' s1 = Inr s2
         \<and> active_sessions ''d1'' s2 = 1)"
proof -
  have h1: "find (\<lambda>d. drv_user_id d = ''u1'') (drivers ex_offline)
              = Some (ex_driver\<lparr>is_online := False\<rparr>)"
    by (simp add: ex_offline_eq ex_driver_def)
  have h2: "\<not> is_online (ex_driver\<lparr>is_online := False\<rparr>)" by simp
  have h3: "\<not> pk_taken att_id ''a1'' (attendance ex_offline)"
    by (simp add: ex_offline_eq pk_taken_def)
  have id: "drv_id (ex_driver\<lparr>is_online := False\<rparr>) = ''d1''" by (simp add: ex_driver_def)
  from update_my_status_body_idempotent [OF h1, of False 1 2 "''a1''" 3 4 "''a2''"] h2 h3
  have c: "(\<exists>s'. update_my_status_body (Some False) ''u1'' 1 2 ''a1'' ex_offline = Inr s'
         \<and> attendance s' = attendance ex_offline)
   \<and> (\<exists>s1 s2. update_my_status_body (Some True) ''u1'' 1 2 ''a1'' ex_offline = Inr s1
         \<and> update_my_status_body (Some True) ''u1'' 3 4 ''a2'' s1 = Inr s2
         \<and> active_sessions ''d1'' s2 = active_sessions ''d1'' ex_offline + 1)"
    unfolding id by blast
  have g1: "find (\<lambda>d. drv_user_id d = ''u1'') (drivers ex_db) = Some ex_driver"
    by (simp add: ex_db_def ex_driver_def)
  have g2: "is_online ex_driver" by (simp add: ex_driver_def)
  have g3: "active_sessions ''d1'' ex_db = 1"
    by (simp add: ex_db_def active_sessions_def ex_session_def)
  have g4: "\<not> pk_taken att_id ''a2'' (attendance ex_db)"
    by (simp add: ex_db_def pk_taken_def ex_session_def)
  have id2: "drv_id ex_driver = ''d1''" by (simp add: ex_driver_def)
  have g5: "active_sessions (drv_id ex_driver) ex_db = (if is_online ex_driver then 1 else 0)"
    using g2 g3 id2 by simp
  from update_my_status_body_idempotent [OF g1, of True 1 2 "''a2''" 3 4 "''a3''"] g5 g4
  have e: "\<exists>s1 s2. update_my_status_body (Some True) ''u1'' 1 2 ''a2'' ex_db = Inr s1
         \<and> update_my_status_body (Some True) ''u1'' 3 4 ''a3'' s1 = Inr s2
         \<and> active_sessions ''d1'' s2 = 1"
    unfolding id2 by blast
  show ?thesis using h1 h2 h3 c g1 g2 g3 g4 e by blast
qed

text \<open>
  C10. When the assigned driver completes an in-progress ride that has no started kilometer
  entry, \<^verbatim>\<open>complete_ride\<close> still succeeds, for every end reading, duration and ride count
  that fit a signed 64-bit integer: the ride becomes completed (with the time and the
  duration given), the driver's reading is set to the end reading and the ride count goes
  up by one, and the table of kilometer entries is left as it was.
\<close>

theorem complete_ride_without_entry:
  assumes drv: "find (\<lambda>d. drv_user_id d = uid) (drivers s) = Some driver"
      and rd: "find (\<lambda>r. ride_id r = rid) (rides s) = Some ride"
      and own: "ride_driver_id ride = Some (drv_id driver)"
      and st: "ride_status ride = ''in_progress''"
      and none: "\<not> (\<exists>k \<in> set (km_entries s). km_ride_id k = Some rid \<and> km_status k = ''started'')"
      and fit: "fits_int64 e" "opt_fits_int64 dur" "fits_int64 (total_rides driver + 1)"
  shows "\<exists>s'. complete_ride rid e dur uid now s = Inr s'
           \<and> km_entries s' = km_entries s
           \<and> (\<exists>r'. find (\<lambda>r. ride_id r = rid) (rides s') = Some r'
                    \<and> ride_status r' = ''completed'' \<and> completed_at r' = Some now
                    \<and> actual_duration r' = dur)
           \<and> find (\<lambda>d. drv_user_id d = uid) (drivers s') =
               Some (driver\<lparr>current_km_reading := e, total_rides := total_rides driver + 1\<rparr>)"
proof -
  have pk: "ride_id ride = rid" using rd by (rule find_Some_pk)
  have nf: "find (\<lambda>k. km_ride_id k = Some rid \<and> km_status k = ''started'') (km_entries s) = None"
    using none by (simp add: find_None_iff)
  have u: "drv_user_id driver = uid" using drv by (auto dest: find_Some_mem)
  show ?thesis
    using drv rd own st nf pk u fit
    by (simp add: complete_ride_def Let_def find_commit_row_same find_user_commit_row)
qed

theorem complete_ride_without_entry_witness:
  "find (\<lambda>d. drv_user_id d = ''u1'') (drivers ex_no_entry) = Some ex_driver
   \<and> \<not> (\<exists>k \<in> set (km_entries ex_no_entry). km_ride_id k = Some ''r1'' \<and> km_status k = ''started'')
   \<and> fits_int64 150 \<and> opt_fits_int64 (Some 12) \<and> fits_int64 (total_rides ex_driver + 1)
   \<and> (\<exists>s'. complete_ride ''r1'' 150 (Some 12) ''u1'' 9 ex_no_entry = Inr s'
         \<and> km_entries s' = km_entries ex_no_entry
         \<and> find (\<lambda>d. drv_user_id d = ''u1'') (drivers s') =
             Some (ex_driver\<lparr>current_km_reading := 150, total_rides := 8\<rparr>))"
proof -
  let ?r = "ex_ride\<lparr>ride_driver_id := Some ''d1'', ride_status := ''in_progress'',
                    assigned_at := Some 5, picked_up_at := Some 6\<rparr>"
  have h1: "find (\<lambda>d. drv_user_id d = ''u1'') (drivers ex_no_entry) = Some ex_driver"
    by (simp add: ex_no_entry_eq ex_driver_def)
  have h2: "find (\<lambda>r. ride_id r = ''r1'') (rides ex_no_entry) = Some ?r"
    by (simp add: ex_no_entry_eq ex_ride_def)
  have h3: "ride_driver_id ?r = Some (drv_id ex_driver)" by (simp add: ex_driver_def)
  have h4: "ride_status ?r = ''in_progress''" by simp
  have h5: "\<not> (\<exists>k \<in> set (km_entries ex_no_entry).
                 km_ride_id k = Some ''r1'' \<and> km_status k = ''started'')"
    by (simp add: ex_no_entry_eq)
  have f1: "fits_int64 150" by (simp add: fits_int64_def)
  have f2: "opt_fits_int64 (Some 12)" by (simp add: opt_fits_int64_def fits_int64_def)
  have f3: "fits_int64 (total_rides ex_driver + 1)" by (simp add: fits_int64_def ex_driver_def)
  have t: "total_rides ex_driver + 1 = 8" by (simp add: ex_driver_def)
  from complete_ride_without_entry [OF h1 h2 h3 h4 h5 f1 f2 f3, of 9]
  have c: "\<exists>s'. complete_ride ''r1'' 150 (Some 12) ''u1'' 9 ex_no_entry = Inr s'
         \<and> km_entries s' = km_entries ex_no_entry
         \<and> find (\<lambda>d. drv_user_id d = ''u1'') (drivers s') =
             Some (ex_driver\<lparr>current_km_reading := 150, total_rides := 8\<rparr>)"
    unfolding t by blast
  show ?thesis using h1 h5 f1 f2 f3 c by blast
qed

end
